theory Spec2Isabelle
  imports Complex_Main "HOL-Library.Sublist"
begin

section \<open>Graph model\<close>

text \<open>
  The node kinds of \<^verbatim>\<open>NodeType\<close> in \<^verbatim>\<open>types/schemas.ts\<close>. The source keeps the
  kind as a string in \<^verbatim>\<open>data.nodeType\<close>; the TypeScript union is closed, so the
  model is a datatype and \<open>nodeTypeName\<close> gives the string the source interpolates
  into messages.
\<close>

datatype NodeType =
    Device | Inbound | Routing | Balancer | OutboundTerminal | OutboundProxy
  | SimpleServer | SimpleInternet | SimpleBlock | SimpleRules

fun nodeTypeName :: "NodeType \<Rightarrow> string" where
  "nodeTypeName Device = ''device''"
| "nodeTypeName Inbound = ''inbound''"
| "nodeTypeName Routing = ''routing''"
| "nodeTypeName Balancer = ''balancer''"
| "nodeTypeName OutboundTerminal = ''outbound-terminal''"
| "nodeTypeName OutboundProxy = ''outbound-proxy''"
| "nodeTypeName SimpleServer = ''simple-server''"
| "nodeTypeName SimpleInternet = ''simple-internet''"
| "nodeTypeName SimpleBlock = ''simple-block''"
| "nodeTypeName SimpleRules = ''simple-rules''"

section \<open>Connection rule checker (\<^verbatim>\<open>utils/connectionRules.ts\<close>)\<close>

record ConnectionResult =
  valid :: bool
  reason :: "string option"

text \<open>
  The table \<^verbatim>\<open>allowed\<close> of \<^verbatim>\<open>isValidConnection\<close>: a record from source kind to the
  list of legal target kinds. A kind without an entry gives \<^verbatim>\<open>undefined\<close>, here \<open>None\<close>.
\<close>

fun allowed :: "NodeType \<Rightarrow> NodeType list option" where
  "allowed Device = Some [Inbound, OutboundProxy]"
| "allowed Inbound = Some [Routing, Balancer, OutboundTerminal, OutboundProxy]"
| "allowed Routing = Some [Routing, Balancer, OutboundTerminal, OutboundProxy]"
| "allowed Balancer = Some [OutboundTerminal, OutboundProxy]"
| "allowed OutboundProxy = Some [Inbound]"
| "allowed _ = None"

text \<open>
  \<^verbatim>\<open>isValidConnection\<close> reads only \<^verbatim>\<open>data.nodeType\<close> of its two nodes, so the model
  takes the two kinds.
\<close>

definition isValidConnection :: "NodeType \<Rightarrow> NodeType \<Rightarrow> ConnectionResult" where
  "isValidConnection sourceType targetType =
     (if sourceType = OutboundTerminal then
        \<lparr>valid = False,
         reason = Some ''Terminal OUTPUT nodes (freedom/blackhole/dns) cannot have outgoing connections''\<rparr>
      else
        (case allowed sourceType of
           None \<Rightarrow>
             \<lparr>valid = False,
              reason = Some (''Cannot connect '' @ nodeTypeName sourceType @ '' to '' @ nodeTypeName targetType)\<rparr>
         | Some allowedTargets \<Rightarrow>
             if targetType \<notin> set allowedTargets then
               \<lparr>valid = False,
                reason = Some (''Cannot connect '' @ nodeTypeName sourceType @ '' to '' @ nodeTypeName targetType)\<rparr>
             else \<lparr>valid = True, reason = None\<rparr>))"

text \<open>The adjacency table as the specification words it, as a set of pairs.\<close>

definition adjacencyTable :: "(NodeType \<times> NodeType) set" where
  "adjacencyTable =
     {(Device, Inbound), (Device, OutboundProxy),
      (Inbound, Routing), (Inbound, Balancer), (Inbound, OutboundTerminal), (Inbound, OutboundProxy),
      (Routing, Routing), (Routing, Balancer), (Routing, OutboundTerminal), (Routing, OutboundProxy),
      (Balancer, OutboundTerminal), (Balancer, OutboundProxy),
      (OutboundProxy, Inbound)}"


section \<open>Strings and numbers of the host language\<close>

text \<open>
  Strings are lists of characters read as ASCII. \<open>toLowerCase\<close>, \<open>toUpperCase\<close> and
  \<open>trim\<close> are the JavaScript methods on such strings; \<open>prefix\<close>, \<open>suffix\<close> and \<open>sublist\<close>
  of the library are \<^verbatim>\<open>startsWith\<close>, \<^verbatim>\<open>endsWith\<close> and \<^verbatim>\<open>includes\<close> with the arguments
  swapped. The two non-ASCII symbols of the source's messages are spelled in UTF-8.
\<close>

definition upperLetters :: string where
  "upperLetters = ''ABCDEFGHIJKLMNOPQRSTUVWXYZ''"

definition lowerLetters :: string where
  "lowerLetters = ''abcdefghijklmnopqrstuvwxyz''"

definition toLowerChar :: "char \<Rightarrow> char" where
  "toLowerChar c =
     (case map_of (zip upperLetters lowerLetters) c of None \<Rightarrow> c | Some l \<Rightarrow> l)"

definition toUpperChar :: "char \<Rightarrow> char" where
  "toUpperChar c =
     (case map_of (zip lowerLetters upperLetters) c of None \<Rightarrow> c | Some u \<Rightarrow> u)"

definition toLowerCase :: "string \<Rightarrow> string" where
  "toLowerCase s = map toLowerChar s"

definition toUpperCase :: "string \<Rightarrow> string" where
  "toUpperCase s = map toUpperChar s"

definition isWhiteSpace :: "char \<Rightarrow> bool" where
  "isWhiteSpace c = (c \<in> set [CHR 0x09, CHR 0x0A, CHR 0x0B, CHR 0x0C, CHR 0x0D, CHR '' ''])"

definition trim :: "string \<Rightarrow> string" where
  "trim s = rev (dropWhile isWhiteSpace (rev (dropWhile isWhiteSpace s)))"

text \<open>\<^verbatim>\<open>s.split(c)\<close> for a one-character separator: never the empty list.\<close>

fun split :: "char \<Rightarrow> string \<Rightarrow> string list" where
  "split c [] = [[]]"
| "split c (x # xs) =
     (if x = c then [] # split c xs
      else (case split c xs of [] \<Rightarrow> [[x]] | w # ws \<Rightarrow> (x # w) # ws))"

text \<open>\<^verbatim>\<open>xs.join(sep)\<close>.\<close>

fun join :: "string \<Rightarrow> string list \<Rightarrow> string" where
  "join sep [] = []"
| "join sep [x] = x"
| "join sep (x # y # ys) = x @ sep @ join sep (y # ys)"

definition digitChar :: "nat \<Rightarrow> char" where
  "digitChar d = ''0123456789'' ! d"

text \<open>Decimal digits of a natural number, by repeated division (fuel bounds the digits).\<close>

fun showNatAux :: "nat \<Rightarrow> nat \<Rightarrow> string \<Rightarrow> string" where
  "showNatAux 0 n acc = acc"
| "showNatAux (Suc k) n acc =
     (if n < 10 then digitChar n # acc
      else showNatAux k (n div 10) (digitChar (n mod 10) # acc))"

definition showNat :: "nat \<Rightarrow> string" where
  "showNat n = showNatAux (Suc n) n []"

text \<open>The template-literal rendering of an integer-valued number.\<close>

definition showInt :: "int \<Rightarrow> string" where
  "showInt i = (if i < 0 then CHR ''-'' # showNat (nat (- i)) else showNat (nat i))"

definition arrow :: string where
  "arrow = [CHR 0xE2, CHR 0x86, CHR 0x92]"

definition emdash :: string where
  "emdash = [CHR 0xE2, CHR 0x80, CHR 0x94]"

text \<open>
  A JavaScript number as far as \<^verbatim>\<open>matchPortRule\<close> looks at it: not-a-number, an
  infinity, or a finite value. Comparison with \<^verbatim>\<open>NaN\<close> is false.
\<close>

datatype jsnum = NaN | NegInf | Num real | PosInf

fun js_le :: "jsnum \<Rightarrow> jsnum \<Rightarrow> bool" where
  "js_le NaN _ = False"
| "js_le _ NaN = False"
| "js_le NegInf _ = True"
| "js_le _ PosInf = True"
| "js_le (Num a) (Num b) = (a \<le> b)"
| "js_le (Num a) NegInf = False"
| "js_le PosInf (Num b) = False"
| "js_le PosInf NegInf = False"

definition isNaN :: "jsnum \<Rightarrow> bool" where
  "isNaN x = (x = NaN)"

section \<open>Graph model (\<^verbatim>\<open>types/schemas.ts\<close>)\<close>

text \<open>
  Optional fields are options. Fields whose TypeScript type is a string enum are
  kept as strings where the import path can store an unchecked string in them
  (protocols, balancer strategy, device connection type), and are datatypes where
  every producer respects the enum (transport network and security, routing
  network). Ports and priorities are integer-valued numbers.
\<close>

datatype Network = Raw | Ws | Grpc | Xhttp

datatype Security = NoSecurity | Tls | Reality

datatype NetProto = Tcp | Udp

fun netProtoName :: "NetProto \<Rightarrow> string" where
  "netProtoName Tcp = ''tcp''"
| "netProtoName Udp = ''udp''"

fun networkName :: "Network \<Rightarrow> string" where
  "networkName Raw = ''raw''"
| "networkName Ws = ''ws''"
| "networkName Grpc = ''grpc''"
| "networkName Xhttp = ''xhttp''"

fun securityName :: "Security \<Rightarrow> string" where
  "securityName NoSecurity = ''none''"
| "securityName Tls = ''tls''"
| "securityName Reality = ''reality''"

record WsSettings =
  ws_path :: "string option"
  ws_headers :: "(string \<times> string) list option"

record GrpcSettings =
  grpc_serviceName :: "string option"
  grpc_multiMode :: "bool option"

record XhttpSettings =
  xhttp_path :: "string option"
  xhttp_host :: "string option"

record TlsSettings =
  tls_serverName :: "string option"
  tls_alpn :: "string list option"
  tls_fingerprint :: "string option"

record RealitySettings =
  reality_serverName :: "string option"
  reality_fingerprint :: "string option"
  reality_publicKey :: "string option"
  reality_shortId :: "string option"
  reality_spiderX :: "string option"

record TransportSettings =
  network :: Network
  wsSettings :: "WsSettings option"
  grpcSettings :: "GrpcSettings option"
  xhttpSettings :: "XhttpSettings option"
  security :: Security
  tlsSettings :: "TlsSettings option"
  realitySettings :: "RealitySettings option"

record User =
  email :: string
  user_id :: "string option"
  user_password :: "string option"
  level :: "int option"

record DeviceData =
  dev_name :: string
  connectionType :: string

record InboundData =
  in_tag :: string
  in_protocol :: string
  listen :: string
  in_port :: int
  sniffing :: "bool option"
  users :: "User list option"
  in_transport :: "TransportSettings option"

record RoutingData =
  rt_tag :: string
  rt_domain :: "string list option"
  rt_ip :: "string list option"
  rt_port :: "string option"
  rt_protocol :: "string list option"
  rt_network :: "NetProto option"
  rt_inboundTag :: "string option"

record BalancerData =
  bal_tag :: string
  strategy :: string
  selector :: "string list"

record OutboundData =
  out_tag :: string
  out_protocol :: string
  serverAddress :: "string option"
  serverPort :: "int option"
  out_transport :: "TransportSettings option"

record SimpleServerData =
  ss_name :: string
  ss_host :: string
  ss_port :: int
  ss_protocol :: string
  ss_uuid :: "string option"
  ss_password :: "string option"
  ss_network :: Network
  ss_security :: Security
  ss_sni :: "string option"
  ss_fingerprint :: "string option"
  ss_alpn :: "string option"
  ss_wsPath :: "string option"
  ss_wsHost :: "string option"
  ss_grpcServiceName :: "string option"
  ss_xhttpPath :: "string option"
  ss_xhttpHost :: "string option"
  ss_realityPublicKey :: "string option"
  ss_realityShortId :: "string option"
  ss_realitySpiderX :: "string option"

record SimpleRuleCondition =
  cond_type :: string
  cond_value :: string

record SimpleRulesData =
  sr_label :: string
  sr_rules :: "SimpleRuleCondition list"

text \<open>The discriminated union \<^verbatim>\<open>XrayNodeData\<close>: the constructor is \<^verbatim>\<open>nodeType\<close>.\<close>

datatype XrayNodeData =
    DeviceNode DeviceData
  | InboundNode InboundData
  | RoutingNode RoutingData
  | BalancerNode BalancerData
  | OutboundTerminalNode OutboundData
  | OutboundProxyNode OutboundData
  | SimpleServerNode SimpleServerData
  | SimpleInternetNode string
  | SimpleBlockNode string
  | SimpleRulesNode SimpleRulesData

fun nodeType :: "XrayNodeData \<Rightarrow> NodeType" where
  "nodeType (DeviceNode _) = Device"
| "nodeType (InboundNode _) = Inbound"
| "nodeType (RoutingNode _) = Routing"
| "nodeType (BalancerNode _) = Balancer"
| "nodeType (OutboundTerminalNode _) = OutboundTerminal"
| "nodeType (OutboundProxyNode _) = OutboundProxy"
| "nodeType (SimpleServerNode _) = SimpleServer"
| "nodeType (SimpleInternetNode _) = SimpleInternet"
| "nodeType (SimpleBlockNode _) = SimpleBlock"
| "nodeType (SimpleRulesNode _) = SimpleRules"

text \<open>\<^verbatim>\<open>'tag' in data ? data.tag : undefined\<close>.\<close>

fun dataTag :: "XrayNodeData \<Rightarrow> string option" where
  "dataTag (InboundNode d) = Some (in_tag d)"
| "dataTag (RoutingNode d) = Some (rt_tag d)"
| "dataTag (BalancerNode d) = Some (bal_tag d)"
| "dataTag (OutboundTerminalNode d) = Some (out_tag d)"
| "dataTag (OutboundProxyNode d) = Some (out_tag d)"
| "dataTag _ = None"

text \<open>\<^verbatim>\<open>'name' in data ? data.name : undefined\<close>.\<close>

fun dataName :: "XrayNodeData \<Rightarrow> string option" where
  "dataName (DeviceNode d) = Some (dev_name d)"
| "dataName (SimpleServerNode d) = Some (ss_name d)"
| "dataName _ = None"

text \<open>
  A node of the canvas: identifier, position, the optional \<^verbatim>\<open>data.serverId\<close> (which
  the source reads from the data of a node of any kind) and the payload.
\<close>

record XrayNode =
  node_id :: string
  position :: "int \<times> int"
  serverId :: "string option"
  node_data :: XrayNodeData

record EdgeData =
  priority :: "int option"
  edge_label :: "string option"
  edge_transport :: "TransportSettings option"

record XrayEdge =
  edge_id :: string
  source :: string
  target :: string
  edge_data :: "EdgeData option"

section \<open>Traffic simulator (\<^verbatim>\<open>utils/simulation.ts\<close>)\<close>

text \<open>
  What the simulator takes from its environment: the regular-expression engine
  (\<^verbatim>\<open>new RegExp(p, 'i').test(s)\<close>, \<open>None\<close> when the constructor throws), the
  conversion \<^verbatim>\<open>Number(s)\<close>, and the successive values of \<^verbatim>\<open>Math.random()\<close>.
\<close>

record SimEnv =
  regExpTest :: "string \<Rightarrow> string \<Rightarrow> bool option"
  toNumber :: "string \<Rightarrow> jsnum"
  random :: "nat \<Rightarrow> real"

record SimulationInput =
  si_domain :: string
  si_protocol :: NetProto
  si_port :: int
  si_inboundTag :: string

record SimulationStep =
  step_nodeId :: string
  step_tag :: string
  step_nodeType :: NodeType
  description :: "string option"

record SimulationResult =
  success :: bool
  path :: "SimulationStep list"
  highlightNodeIds :: "string list"
  highlightEdgeIds :: "string list"
  finalOutbound :: "string option"
  explanation :: string

definition matchDomainRule :: "SimEnv \<Rightarrow> string \<Rightarrow> string \<Rightarrow> bool" where
  "matchDomainRule env rule domain =
     (let lower = toLowerCase domain in
      if prefix ''regexp:'' rule then
        (case regExpTest env (drop 7 rule) lower of None \<Rightarrow> False | Some b \<Rightarrow> b)
      else if prefix ''domain:'' rule then
        (let target = toLowerCase (drop 7 rule)
         in lower = target \<or> suffix (''.'' @ target) lower)
      else if prefix ''full:'' rule then lower = toLowerCase (drop 5 rule)
      else if prefix ''geosite:'' rule then
        (let geo = toLowerCase (drop 8 rule) in
         if geo = ''google'' then
           sublist ''google.'' lower \<or> sublist ''youtube.'' lower
           \<or> sublist ''gmail.'' lower \<or> sublist ''gstatic.'' lower
         else if geo = ''facebook'' then
           sublist ''facebook.'' lower \<or> sublist ''fb.'' lower
           \<or> sublist ''instagram.'' lower \<or> sublist ''whatsapp.'' lower
         else if geo = ''twitter'' then
           sublist ''twitter.'' lower \<or> sublist ''x.com'' lower \<or> sublist ''twimg.'' lower
         else if geo = ''cn'' \<or> geo = ''geolocation-cn'' then
           suffix ''.cn'' lower \<or> sublist ''baidu.'' lower \<or> sublist ''qq.'' lower
           \<or> sublist ''taobao.'' lower \<or> sublist ''alibaba.'' lower
         else False)
      else
        (let target = toLowerCase rule
         in lower = target \<or> suffix (''.'' @ target) lower))"

definition matchIpRule :: "string \<Rightarrow> string \<Rightarrow> bool" where
  "matchIpRule rule domain = False"

definition matchPortPart :: "SimEnv \<Rightarrow> int \<Rightarrow> string \<Rightarrow> bool" where
  "matchPortPart env port part =
     (let trimmed = trim part in
      if sublist ''-'' trimmed then
        (case map (toNumber env) (split CHR ''-'' trimmed) of
           start # end # _ \<Rightarrow>
             \<not> isNaN start \<and> \<not> isNaN end
             \<and> js_le start (Num (real_of_int port)) \<and> js_le (Num (real_of_int port)) end
         | _ \<Rightarrow> False)
      else toNumber env trimmed = Num (real_of_int port))"

definition matchPortRule :: "SimEnv \<Rightarrow> string \<Rightarrow> int \<Rightarrow> bool" where
  "matchPortRule env rule port = list_ex (matchPortPart env port) (split CHR '','' rule)"

definition matchProtocolRule :: "string list \<Rightarrow> string \<Rightarrow> bool" where
  "matchProtocolRule rules protocol =
     list_ex (\<lambda>r. toLowerCase r = toLowerCase protocol) rules"

text \<open>Truthiness of an optional string and of an optional list's \<^verbatim>\<open>length\<close>.\<close>

fun truthyStr :: "string option \<Rightarrow> bool" where
  "truthyStr None = False"
| "truthyStr (Some s) = (s \<noteq> [])"

fun nonEmptyList :: "'a list option \<Rightarrow> bool" where
  "nonEmptyList None = False"
| "nonEmptyList (Some xs) = (xs \<noteq> [])"

text \<open>The elements of an optional list and the characters of an optional string.\<close>

fun listOf :: "'a list option \<Rightarrow> 'a list" where
  "listOf None = []"
| "listOf (Some xs) = xs"

definition doesRoutingMatch :: "SimEnv \<Rightarrow> RoutingData \<Rightarrow> SimulationInput \<Rightarrow> string \<Rightarrow> bool" where
  "doesRoutingMatch env routing input sourceInboundTag =
     (if truthyStr (rt_inboundTag routing) \<and> rt_inboundTag routing \<noteq> Some sourceInboundTag
      then False
      else
        (let hasDomain = nonEmptyList (rt_domain routing);
             domainOk =
               (if hasDomain
                then list_ex (\<lambda>rule. matchDomainRule env rule (si_domain input))
                       (listOf (rt_domain routing))
                else True);
             hasIp = nonEmptyList (rt_ip routing);
             ipOk =
               (if hasIp
                then list_ex (\<lambda>rule. matchIpRule rule (si_domain input)) (listOf (rt_ip routing))
                     \<or> hasDomain
                else True);
             hasPort = truthyStr (rt_port routing);
             portOk =
               (if hasPort then matchPortRule env (listOf (rt_port routing)) (si_port input)
                else True);
             hasProtocol = nonEmptyList (rt_protocol routing);
             protocolOk =
               (if hasProtocol
                then matchProtocolRule (listOf (rt_protocol routing)) (netProtoName (si_protocol input))
                else True);
             hasNetwork = (rt_network routing \<noteq> None);
             networkOk =
               (if hasNetwork then rt_network routing = Some (si_protocol input) else True);
             hasRules = hasDomain \<or> hasIp \<or> hasPort \<or> hasProtocol \<or> hasNetwork;
             matched = domainOk \<and> ipOk \<and> portOk \<and> protocolOk \<and> networkOk
         in if \<not> hasRules then True else matched))"

subsection \<open>Simulation engine\<close>

definition edgePriority :: "XrayEdge \<Rightarrow> int" where
  "edgePriority e =
     (case edge_data e of
        None \<Rightarrow> 999
      | Some d \<Rightarrow> (case priority d of None \<Rightarrow> 999 | Some p \<Rightarrow> p))"

text \<open>\<^verbatim>\<open>getOutgoingEdges\<close> of the simulator: the stable sort by priority.\<close>

definition sim_getOutgoingEdges :: "string \<Rightarrow> XrayEdge list \<Rightarrow> XrayEdge list" where
  "sim_getOutgoingEdges nodeId edges =
     sort_key edgePriority (filter (\<lambda>e. source e = nodeId) edges)"

definition getNodeById :: "string \<Rightarrow> XrayNode list \<Rightarrow> XrayNode option" where
  "getNodeById nodeId nodes = find (\<lambda>n. node_id n = nodeId) nodes"

text \<open>An absent value inside a template literal prints as \<^verbatim>\<open>undefined\<close>.\<close>

fun templ :: "string option \<Rightarrow> string" where
  "templ None = ''undefined''"
| "templ (Some s) = s"

text \<open>\<^verbatim>\<open>xs.slice(0, 2).join(', ')\<close> followed by \<^verbatim>\<open>...\<close> when there are more than two.\<close>

definition firstTwo :: "string list \<Rightarrow> string" where
  "firstTwo xs = join '', '' (take 2 xs) @ (if length xs > 2 then ''...'' else [])"

definition describeRouting :: "RoutingData \<Rightarrow> string" where
  "describeRouting d =
     (let rules =
            (if nonEmptyList (rt_domain d) then [''domain: '' @ firstTwo (listOf (rt_domain d))] else [])
          @ (if nonEmptyList (rt_ip d) then [''ip: '' @ firstTwo (listOf (rt_ip d))] else [])
          @ (if truthyStr (rt_port d) then [''port: '' @ listOf (rt_port d)] else [])
          @ (if nonEmptyList (rt_protocol d)
             then [''proto: '' @ join '', '' (listOf (rt_protocol d))] else [])
          @ (case rt_network d of None \<Rightarrow> [] | Some n \<Rightarrow> [''net: '' @ netProtoName n])
      in if rules \<noteq> [] then ''Routing ['' @ join ''; '' rules @ '']'' else ''Routing [catch-all]'')"

text \<open>\<^verbatim>\<open>d.serverAddress || '?'\<close> and \<^verbatim>\<open>d.serverPort || '?'\<close>.\<close>

definition addrOrQ :: "string option \<Rightarrow> string" where
  "addrOrQ a = (if truthyStr a then listOf a else ''?'')"

definition portOrQ :: "int option \<Rightarrow> string" where
  "portOrQ p = (case p of None \<Rightarrow> ''?'' | Some n \<Rightarrow> if n = 0 then ''?'' else showInt n)"

text \<open>\<^verbatim>\<open>describeNode\<close>; the \<^verbatim>\<open>switch\<close> has no case for the simple-mode kinds.\<close>

fun describeNode :: "XrayNodeData \<Rightarrow> string option" where
  "describeNode (DeviceNode d) = Some (''Device ('' @ connectionType d @ '')'')"
| "describeNode (InboundNode d) =
     Some (toUpperCase (in_protocol d) @ '' INPUT :'' @ showInt (in_port d))"
| "describeNode (RoutingNode d) = Some (describeRouting d)"
| "describeNode (BalancerNode d) = Some (''Balancer ('' @ strategy d @ '')'')"
| "describeNode (OutboundTerminalNode d) =
     Some (toUpperCase (take 1 (out_protocol d)) @ drop 1 (out_protocol d) @ '' OUTPUT (terminal)'')"
| "describeNode (OutboundProxyNode d) =
     Some (''OUTPUT '' @ toUpperCase (out_protocol d) @ '' '' @ arrow @ '' ''
           @ addrOrQ (serverAddress d) @ '':'' @ portOrQ (serverPort d))"
| "describeNode _ = None"

text \<open>\<^verbatim>\<open>'tag' in data ? data.tag : ('name' in data ? data.name : node.id)\<close>.\<close>

definition stepTag :: "XrayNode \<Rightarrow> string" where
  "stepTag n =
     (case dataTag (node_data n) of
        Some t \<Rightarrow> t
      | None \<Rightarrow> (case dataName (node_data n) of Some m \<Rightarrow> m | None \<Rightarrow> node_id n))"

text \<open>
  The mutable locals of \<^verbatim>\<open>runSimulation\<close>, and the number of \<^verbatim>\<open>Math.random()\<close> calls
  made so far.
\<close>

record SimState =
  st_path :: "SimulationStep list"
  st_highlightNodeIds :: "string list"
  st_highlightEdgeIds :: "string list"
  sim_visited :: "string set"
  randomCalls :: nat

datatype SimError = TypeError

text \<open>What one pass through the body of the \<^verbatim>\<open>while\<close> loop does.\<close>

datatype StepOutcome =
    Return SimulationResult
  | Throw SimError
  | Continue SimState "XrayNode option"

definition finish :: "SimState \<Rightarrow> bool \<Rightarrow> string option \<Rightarrow> string \<Rightarrow> SimulationResult" where
  "finish st ok final expl =
     \<lparr>success = ok, path = st_path st, highlightNodeIds = st_highlightNodeIds st,
      highlightEdgeIds = st_highlightEdgeIds st, finalOutbound = final, explanation = expl\<rparr>"

definition follow :: "SimState \<Rightarrow> XrayEdge \<Rightarrow> XrayNode list \<Rightarrow> StepOutcome" where
  "follow st e nodes =
     Continue (st\<lparr>st_highlightEdgeIds := st_highlightEdgeIds st @ [edge_id e]\<rparr>)
       (getNodeById (target e) nodes)"

text \<open>
  The \<^verbatim>\<open>for\<close> loop at an inbound node: the first edge to a matching routing node
  wins; before that, the first edge to a target of another kind is kept as fallback.
\<close>

fun pickInboundEdge ::
  "SimEnv \<Rightarrow> SimulationInput \<Rightarrow> string \<Rightarrow> XrayNode list \<Rightarrow> XrayEdge option \<Rightarrow> XrayEdge list
   \<Rightarrow> XrayEdge option" where
  "pickInboundEdge env input tag nodes nextEdge [] = nextEdge"
| "pickInboundEdge env input tag nodes nextEdge (e # es) =
     (case getNodeById (target e) nodes of
        None \<Rightarrow> pickInboundEdge env input tag nodes nextEdge es
      | Some targetNode \<Rightarrow>
          (case node_data targetNode of
             RoutingNode r \<Rightarrow>
               if doesRoutingMatch env r input tag then Some e
               else pickInboundEdge env input tag nodes nextEdge es
           | _ \<Rightarrow>
               pickInboundEdge env input tag nodes
                 (if nextEdge = None then Some e else nextEdge) es))"

text \<open>
  The predicate of \<^verbatim>\<open>outgoing.filter\<close> at a balancer. With a non-empty selector the
  source evaluates \<^verbatim>\<open>targetData.tag.includes(sel)\<close>, which throws on a target
  without a tag.
\<close>

definition isValidTarget :: "BalancerData \<Rightarrow> XrayNode list \<Rightarrow> XrayEdge \<Rightarrow> SimError + bool" where
  "isValidTarget balancerData nodes e =
     (case getNodeById (target e) nodes of
        None \<Rightarrow> Inr False
      | Some targetNode \<Rightarrow>
          if selector balancerData = [] then Inr True
          else (case dataTag (node_data targetNode) of
                  None \<Rightarrow> Inl TypeError
                | Some tag \<Rightarrow>
                    Inr (list_ex (\<lambda>sel. tag = sel \<or> sublist sel tag) (selector balancerData))))"

fun filterE :: "('a \<Rightarrow> SimError + bool) \<Rightarrow> 'a list \<Rightarrow> SimError + 'a list" where
  "filterE p [] = Inr []"
| "filterE p (x # xs) =
     (case p x of
        Inl err \<Rightarrow> Inl err
      | Inr b \<Rightarrow>
          (case filterE p xs of
             Inl err \<Rightarrow> Inl err
           | Inr ys \<Rightarrow> Inr (if b then x # ys else ys)))"

text \<open>\<^verbatim>\<open>Math.floor(Math.random() * n)\<close> for the \<open>k\<close>-th call of \<^verbatim>\<open>Math.random\<close>.\<close>

definition randomIndex :: "SimEnv \<Rightarrow> nat \<Rightarrow> nat \<Rightarrow> int" where
  "randomIndex env k n = \<lfloor>random env k * real n\<rfloor>"

text \<open>\<^verbatim>\<open>xs[i]\<close>: \<^verbatim>\<open>undefined\<close> out of range.\<close>

definition elemAt :: "'a list \<Rightarrow> int \<Rightarrow> 'a option" where
  "elemAt xs i = (if 0 \<le> i \<and> i < int (length xs) then Some (xs ! nat i) else None)"

text \<open>\<^verbatim>\<open>path[path.length - 1].description += s\<close>.\<close>

definition appendToLastDescription :: "string \<Rightarrow> SimulationStep list \<Rightarrow> SimulationStep list" where
  "appendToLastDescription s p =
     (case rev p of
        [] \<Rightarrow> p
      | l # before \<Rightarrow> rev before @ [l\<lparr>description := Some (templ (description l) @ s)\<rparr>])"

definition balancerStep ::
  "SimEnv \<Rightarrow> XrayNode list \<Rightarrow> SimState \<Rightarrow> BalancerData \<Rightarrow> XrayEdge list \<Rightarrow> StepOutcome" where
  "balancerStep env nodes st balancerData outgoing =
     (case filterE (isValidTarget balancerData nodes) outgoing of
        Inl err \<Rightarrow> Throw err
      | Inr validTargets \<Rightarrow>
          if validTargets = [] then follow st (hd outgoing) nodes
          else
            (let pick =
                   (if strategy balancerData = ''random''
                    then (elemAt validTargets (randomIndex env (randomCalls st) (length validTargets)),
                          st\<lparr>randomCalls := Suc (randomCalls st)\<rparr>)
                    else (Some (hd validTargets), st))
             in case fst pick of
                  None \<Rightarrow> Throw TypeError
                | Some selectedEdge \<Rightarrow>
                    (let st1 =
                       (case getNodeById (target selectedEdge) nodes of
                          None \<Rightarrow> snd pick
                        | Some selectedTarget \<Rightarrow>
                            (snd pick)\<lparr>st_path :=
                               appendToLastDescription
                                 ('' '' @ arrow @ '' selected: '' @ templ (dataTag (node_data selectedTarget)))
                                 (st_path (snd pick))\<rparr>)
                     in follow st1 selectedEdge nodes)))"

text \<open>
  The body of the loop for a current node that was not visited before: \<open>st\<close> is the
  state after the node has been recorded.
\<close>

definition visitNode ::
  "SimEnv \<Rightarrow> SimulationInput \<Rightarrow> XrayNode list \<Rightarrow> XrayEdge list \<Rightarrow> SimState \<Rightarrow> XrayNode
   \<Rightarrow> StepOutcome" where
  "visitNode env input nodes edges st currentNode =
     (let outgoing = sim_getOutgoingEdges (node_id currentNode) edges;
          deadEnd = (\<lambda>tag.
            Return (finish st False None
              (''Dead end at \"'' @ templ tag @ ''\" '' @ emdash @ '' no outgoing connections.'')))
      in case node_data currentNode of
           OutboundTerminalNode d \<Rightarrow>
             (let action =
                    (if out_protocol d = ''freedom'' then ''Direct connection to internet''
                     else if out_protocol d = ''blackhole'' then ''Traffic blocked''
                     else if out_protocol d = ''dns'' then ''DNS query forwarded''
                     else ''Unknown'')
              in Return (finish st True (Some (out_tag d))
                   (action @ '' via \"'' @ out_tag d @ ''\".'')))
         | OutboundProxyNode d \<Rightarrow>
             (let stop =
                    Return (finish st True (Some (out_tag d))
                      (''Traffic forwarded to '' @ addrOrQ (serverAddress d) @ '':''
                       @ portOrQ (serverPort d) @ '' via \"'' @ out_tag d @ ''\".''))
              in case outgoing of
                   [] \<Rightarrow> stop
                 | nextEdge # _ \<Rightarrow>
                     (case getNodeById (target nextEdge) nodes of
                        None \<Rightarrow> stop
                      | Some nextNode \<Rightarrow>
                          if nodeType (node_data nextNode) = Inbound
                          then Continue
                                 (st\<lparr>st_highlightEdgeIds := st_highlightEdgeIds st @ [edge_id nextEdge]\<rparr>)
                                 (Some nextNode)
                          else stop))
         | InboundNode d \<Rightarrow>
             if outgoing = [] then deadEnd (Some (in_tag d))
             else
               (case pickInboundEdge env input (in_tag d) nodes None outgoing of
                  None \<Rightarrow>
                    Return (finish st False None
                      (''No routing rule matched for '' @ si_domain input @ '':''
                       @ showInt (si_port input) @ '' ('' @ netProtoName (si_protocol input)
                       @ '') from \"'' @ in_tag d @ ''\".''))
                | Some nextEdge \<Rightarrow> follow st nextEdge nodes)
         | RoutingNode d \<Rightarrow>
             if outgoing = [] then deadEnd (Some (rt_tag d))
             else follow st (hd outgoing) nodes
         | BalancerNode d \<Rightarrow>
             if outgoing = [] then deadEnd (Some (bal_tag d))
             else balancerStep env nodes st d outgoing
         | _ \<Rightarrow>
             if outgoing = [] then deadEnd None
             else Return (finish st False None ''Simulation ended unexpectedly.''))"

definition recordVisit :: "SimState \<Rightarrow> XrayNode \<Rightarrow> SimState" where
  "recordVisit st currentNode =
     st\<lparr>sim_visited := insert (node_id currentNode) (sim_visited st),
        st_highlightNodeIds := st_highlightNodeIds st @ [node_id currentNode],
        st_path := st_path st @
          [\<lparr>step_nodeId = node_id currentNode, step_tag = stepTag currentNode,
            step_nodeType = nodeType (node_data currentNode),
            description = describeNode (node_data currentNode)\<rparr>]\<rparr>"

definition cycleResult :: "SimState \<Rightarrow> XrayNode \<Rightarrow> SimulationResult" where
  "cycleResult st currentNode =
     \<lparr>success = False,
      path = st_path st @
        [\<lparr>step_nodeId = node_id currentNode, step_tag = stepTag currentNode,
          step_nodeType = nodeType (node_data currentNode),
          description = Some (''Cycle detected '' @ emdash @ '' stopping.'')\<rparr>],
      highlightNodeIds = st_highlightNodeIds st,
      highlightEdgeIds = st_highlightEdgeIds st,
      finalOutbound = None,
      explanation = ''Traffic entered a cycle. This is likely a misconfiguration.''\<rparr>"

text \<open>
  The \<^verbatim>\<open>while (currentNode)\<close> loop. Every pass that continues adds the identifier of
  the current node to \<open>visited\<close>, and the next node is looked up in \<open>nodes\<close>, so the
  loop ends after at most one pass per node.
\<close>

definition loopMeasure :: "XrayNode list \<Rightarrow> SimState \<Rightarrow> XrayNode option \<Rightarrow> nat" where
  "loopMeasure nodes st cur =
     card (node_id ` set nodes - sim_visited st)
     + (case cur of
          None \<Rightarrow> 0
        | Some n \<Rightarrow> if node_id n \<in> node_id ` set nodes then 0 else 1)"

function simLoop ::
  "SimEnv \<Rightarrow> SimulationInput \<Rightarrow> XrayNode list \<Rightarrow> XrayEdge list \<Rightarrow> SimState \<Rightarrow> XrayNode option
   \<Rightarrow> SimError + SimulationResult" where
  "simLoop env input nodes edges st None =
     Inr (finish st False None ''Simulation ended unexpectedly.'')"
| "simLoop env input nodes edges st (Some currentNode) =
     (if node_id currentNode \<in> sim_visited st then Inr (cycleResult st currentNode)
      else
        (case visitNode env input nodes edges (recordVisit st currentNode) currentNode of
           Return r \<Rightarrow> Inr r
         | Throw err \<Rightarrow> Inl err
         | Continue st' next \<Rightarrow> simLoop env input nodes edges st' next))"
  by pat_completeness auto


definition runSimulation ::
  "SimEnv \<Rightarrow> SimulationInput \<Rightarrow> XrayNode list \<Rightarrow> XrayEdge list \<Rightarrow> SimError + SimulationResult" where
  "runSimulation env input nodes edges =
     (case find (\<lambda>n. case node_data n of
                       InboundNode d \<Rightarrow> in_tag d = si_inboundTag input
                     | _ \<Rightarrow> False) nodes of
        None \<Rightarrow>
          Inr \<lparr>success = False, path = [], highlightNodeIds = [], highlightEdgeIds = [],
               finalOutbound = None,
               explanation = ''INPUT \"'' @ si_inboundTag input @ ''\" not found.''\<rparr>
      | Some startNode \<Rightarrow>
          simLoop env input nodes edges
            \<lparr>st_path = [], st_highlightNodeIds = [], st_highlightEdgeIds = [],
             sim_visited = {}, randomCalls = 0\<rparr>
            (Some startNode))"


subsection \<open>Scenarios and side conditions for the simulator's properties\<close>

text \<open>
  An environment whose \<^verbatim>\<open>Math.random()\<close> always returns \<open>r\<close>, whose regular
  expressions are all rejected and whose \<^verbatim>\<open>Number\<close> is always \<^verbatim>\<open>NaN\<close> (neither is
  consulted in the scenarios below).
\<close>

definition constEnv :: "real \<Rightarrow> SimEnv" where
  "constEnv r = \<lparr>regExpTest = (\<lambda>p s. None), toNumber = (\<lambda>s. NaN), random = (\<lambda>k. r)\<rparr>"

definition mkNode :: "string \<Rightarrow> XrayNodeData \<Rightarrow> XrayNode" where
  "mkNode i d = \<lparr>node_id = i, position = (0, 0), serverId = None, node_data = d\<rparr>"

definition mkEdge :: "string \<Rightarrow> string \<Rightarrow> string \<Rightarrow> XrayEdge" where
  "mkEdge i s t = \<lparr>edge_id = i, source = s, target = t, edge_data = None\<rparr>"

definition mkInbound :: "string \<Rightarrow> string \<Rightarrow> int \<Rightarrow> InboundData" where
  "mkInbound t p n =
     \<lparr>in_tag = t, in_protocol = p, listen = ''0.0.0.0'', in_port = n,
      sniffing = None, users = None, in_transport = None\<rparr>"

definition mkOutbound :: "string \<Rightarrow> string \<Rightarrow> OutboundData" where
  "mkOutbound t p =
     \<lparr>out_tag = t, out_protocol = p, serverAddress = None, serverPort = None,
      out_transport = None\<rparr>"

definition mkRouting :: "string \<Rightarrow> RoutingData" where
  "mkRouting t =
     \<lparr>rt_tag = t, rt_domain = None, rt_ip = None, rt_port = None,
      rt_protocol = None, rt_network = None, rt_inboundTag = None\<rparr>"

definition exampleInput :: SimulationInput where
  "exampleInput =
     \<lparr>si_domain = ''example.com'', si_protocol = Tcp, si_port = 443, si_inboundTag = ''in1''\<rparr>"

text \<open>
  The scenario of the specification: inbound \<^verbatim>\<open>in1\<close> (443, vless), a routing node
  on \<^verbatim>\<open>domain:example.com\<close>, proxy outbound \<^verbatim>\<open>out1\<close> without outgoing edge.
\<close>

definition scenarioNodes :: "XrayNode list" where
  "scenarioNodes =
     [mkNode ''n1'' (InboundNode (mkInbound ''in1'' ''vless'' 443)),
      mkNode ''n2'' (RoutingNode ((mkRouting ''rule-1'')\<lparr>rt_domain := Some [''domain:example.com'']\<rparr>)),
      mkNode ''n3'' (OutboundProxyNode (mkOutbound ''out1'' ''vless''))]"

definition scenarioEdges :: "XrayEdge list" where
  "scenarioEdges = [mkEdge ''e1'' ''n1'' ''n2'', mkEdge ''e2'' ''n2'' ''n3'']"

text \<open>
  A balancer with selector \<^verbatim>\<open>proxy\<close> wired first to \<^verbatim>\<open>my-proxy-1\<close> (the selector
  is an interior substring of the tag) and then to \<^verbatim>\<open>proxy-2\<close> (a prefix).
\<close>

definition selectorBalancer :: BalancerData where
  "selectorBalancer = \<lparr>bal_tag = ''bal'', strategy = ''roundRobin'', selector = [''proxy'']\<rparr>"

definition selectorNodes :: "XrayNode list" where
  "selectorNodes =
     [mkNode ''n1'' (InboundNode (mkInbound ''in1'' ''socks'' 1080)),
      mkNode ''n2'' (BalancerNode selectorBalancer),
      mkNode ''n3'' (OutboundTerminalNode (mkOutbound ''my-proxy-1'' ''freedom'')),
      mkNode ''n4'' (OutboundTerminalNode (mkOutbound ''proxy-2'' ''freedom''))]"

definition balancerEdges :: "XrayEdge list" where
  "balancerEdges =
     [mkEdge ''e1'' ''n1'' ''n2'', mkEdge ''e2'' ''n2'' ''n3'', mkEdge ''e3'' ''n2'' ''n4'']"




text \<open>The candidate edges (\<^verbatim>\<open>validTargets\<close>) of a balancer node.\<close>

definition candidates ::
  "BalancerData \<Rightarrow> XrayNode \<Rightarrow> XrayNode list \<Rightarrow> XrayEdge list \<Rightarrow> SimError + XrayEdge list" where
  "candidates d n nodes edges =
     filterE (isValidTarget d nodes) (sim_getOutgoingEdges (node_id n) edges)"



text \<open>
  The shape of the specification's scenario, for any identifiers and any values of
  the fields the scenario leaves open.
\<close>

definition isScenario ::
  "XrayNode \<Rightarrow> XrayNode \<Rightarrow> XrayNode \<Rightarrow> XrayEdge \<Rightarrow> XrayEdge \<Rightarrow> bool" where
  "isScenario n1 n2 n3 e1 e2 =
     (distinct [node_id n1, node_id n2, node_id n3]
      \<and> (case node_data n1 of
            InboundNode d \<Rightarrow> in_tag d = ''in1'' \<and> in_port d = 443 \<and> in_protocol d = ''vless''
          | _ \<Rightarrow> False)
      \<and> (case node_data n2 of
            RoutingNode d \<Rightarrow>
              rt_domain d = Some [''domain:example.com''] \<and> rt_ip d = None \<and> rt_port d = None
              \<and> rt_protocol d = None \<and> rt_network d = None \<and> rt_inboundTag d = None
          | _ \<Rightarrow> False)
      \<and> (case node_data n3 of OutboundProxyNode d \<Rightarrow> out_tag d = ''out1'' | _ \<Rightarrow> False)
      \<and> source e1 = node_id n1 \<and> target e1 = node_id n2
      \<and> source e2 = node_id n2 \<and> target e2 = node_id n3)"

section \<open>Validation engine (\<^verbatim>\<open>utils/validation.ts\<close>)\<close>

datatype ValidationLevel = LevelError | LevelWarning | LevelInfo

record ValidationIssue =
  issue_level :: ValidationLevel
  issue_nodeId :: "string option"
  message :: string

record ValidationResult =
  result_valid :: bool
  errors :: "ValidationIssue list"
  warnings :: "ValidationIssue list"
  infos :: "ValidationIssue list"

definition mkError :: "string \<Rightarrow> string \<Rightarrow> ValidationIssue" where
  "mkError nodeId msg = \<lparr>issue_level = LevelError, issue_nodeId = Some nodeId, message = msg\<rparr>"

definition mkWarning :: "string \<Rightarrow> string \<Rightarrow> ValidationIssue" where
  "mkWarning nodeId msg = \<lparr>issue_level = LevelWarning, issue_nodeId = Some nodeId, message = msg\<rparr>"

subsection \<open>Helpers\<close>

definition isDigit :: "char \<Rightarrow> bool" where
  "isDigit c = (c \<in> set ''0123456789'')"

definition isHexDigit :: "char \<Rightarrow> bool" where
  "isHexDigit c = (c \<in> set ''0123456789abcdefABCDEF'')"

text \<open>
  \<^verbatim>\<open>UUID_RE\<close>: five groups of 8, 4, 4, 4 and 12 hexadecimal digits (either case)
  separated by hyphens, anchored at both ends.
\<close>

definition UUID_RE :: "string \<Rightarrow> bool" where
  "UUID_RE s =
     (let groups = split CHR ''-'' s
      in map length groups = [8, 4, 4, 4, 12] \<and> list_all (list_all isHexDigit) groups)"

text \<open>\<^verbatim>\<open>IP_RE\<close>: four groups of one to three digits separated by dots.\<close>

definition IP_RE :: "string \<Rightarrow> bool" where
  "IP_RE s =
     (let groups = split CHR ''.'' s
      in length groups = 4
         \<and> list_all (\<lambda>g. 1 \<le> length g \<and> length g \<le> 3 \<and> list_all isDigit g) groups)"

text \<open>
  \<^verbatim>\<open>PORT_RANGE_RE\<close>: a comma-separated list of items, each a run of digits or two
  runs of digits joined by a hyphen.
\<close>

definition isDigits :: "string \<Rightarrow> bool" where
  "isDigits s = (s \<noteq> [] \<and> list_all isDigit s)"

definition PORT_RANGE_RE :: "string \<Rightarrow> bool" where
  "PORT_RANGE_RE s =
     list_all (\<lambda>item. let parts = split CHR ''-'' item
                       in (length parts = 1 \<or> length parts = 2) \<and> list_all isDigits parts)
       (split CHR '','' s)"

definition isValidPort :: "int \<Rightarrow> bool" where
  "isValidPort port = (1 \<le> port \<and> port \<le> 65535)"

definition digitValue :: "char \<Rightarrow> nat" where
  "digitValue c = length (takeWhile (\<lambda>d. d \<noteq> c) ''0123456789'')"

text \<open>\<^verbatim>\<open>parseInt\<close> on a run of decimal digits (the only strings it is applied to).\<close>

definition parseInt :: "string \<Rightarrow> nat" where
  "parseInt s = foldl (\<lambda>acc c. 10 * acc + digitValue c) 0 s"

definition isValidIP :: "string \<Rightarrow> bool" where
  "isValidIP ip =
     (if ip = ''0.0.0.0'' \<or> ip = ''127.0.0.1'' then True
      else if \<not> IP_RE ip then False
      else list_all (\<lambda>octet. parseInt octet \<le> 255) (split CHR ''.'' ip))"

text \<open>\<^verbatim>\<open>!s || s.trim() === ''\<close> for a string and for an optional string.\<close>

definition blank :: "string \<Rightarrow> bool" where
  "blank s = (s = [] \<or> trim s = [])"

fun blankOpt :: "string option \<Rightarrow> bool" where
  "blankOpt None = True"
| "blankOpt (Some s) = blank s"

subsection \<open>Node validation\<close>

definition validateUser :: "string \<Rightarrow> string \<Rightarrow> nat \<times> User \<Rightarrow> ValidationIssue list" where
  "validateUser nodeId protocol iu =
     (case iu of (i, user) \<Rightarrow>
        (if protocol \<in> set [''vless'', ''vmess''] \<and> truthyStr (user_id user)
            \<and> \<not> UUID_RE (listOf (user_id user))
         then [mkError nodeId
                 (''User '' @ showNat (i + 1) @ '' has invalid UUID: \"'' @ listOf (user_id user) @ ''\"'')]
         else [])
      @ (if protocol = ''trojan'' \<and> blankOpt (user_password user)
         then [mkError nodeId (''User '' @ showNat (i + 1) @ '' requires a password for Trojan'')]
         else []))"

definition validateInbound :: "string \<Rightarrow> InboundData \<Rightarrow> ValidationIssue list" where
  "validateInbound nodeId d =
       (if blank (in_tag d) then [mkError nodeId ''INPUT node requires a tag''] else [])
     @ (if \<not> isValidPort (in_port d)
        then [mkError nodeId (''Invalid port: '' @ showInt (in_port d) @ ''. Must be 1-65535'')]
        else [])
     @ (if listen d \<noteq> [] \<and> listen d \<noteq> ''0.0.0.0'' \<and> \<not> isValidIP (listen d)
        then [mkWarning nodeId (''Listen address \"'' @ listen d @ ''\" may not be a valid IP'')]
        else [])
     @ (if in_protocol d \<in> set [''vless'', ''vmess'', ''trojan''] then
          (if \<not> nonEmptyList (users d)
           then [mkWarning nodeId (in_protocol d @ '' INPUT has no users configured'')]
           else concat (map (validateUser nodeId (in_protocol d)) (enumerate 0 (listOf (users d)))))
        else [])"

definition validateRouting :: "string \<Rightarrow> RoutingData \<Rightarrow> ValidationIssue list" where
  "validateRouting nodeId d =
     (let hasRules =
            nonEmptyList (rt_domain d) \<or> nonEmptyList (rt_ip d) \<or> truthyStr (rt_port d)
            \<or> truthyStr (rt_inboundTag d) \<or> rt_network d \<noteq> None \<or> nonEmptyList (rt_protocol d)
      in (if blank (rt_tag d) then [mkError nodeId ''Routing node requires a tag''] else [])
       @ (if \<not> hasRules then [mkWarning nodeId ''Routing node has no rules defined''] else [])
       @ (if truthyStr (rt_port d) \<and> \<not> PORT_RANGE_RE (listOf (rt_port d))
          then [mkError nodeId
                  (''Invalid port format: \"'' @ listOf (rt_port d)
                   @ ''\". Use \"80,443\" or \"1000-2000\"'')]
          else []))"

definition validateBalancer :: "string \<Rightarrow> BalancerData \<Rightarrow> ValidationIssue list" where
  "validateBalancer nodeId d =
       (if blank (bal_tag d) then [mkError nodeId ''Balancer node requires a tag''] else [])
     @ (if selector d = []
        then [mkWarning nodeId
                (''Balancer has no selectors '' @ emdash @ '' connections will define targets'')]
        else [])"

definition validateOutbound :: "string \<Rightarrow> OutboundData \<Rightarrow> NodeType \<Rightarrow> ValidationIssue list" where
  "validateOutbound nodeId d nt =
       (if blank (out_tag d) then [mkError nodeId ''OUTPUT node requires a tag''] else [])
     @ (if nt = OutboundProxy then
            (if blankOpt (serverAddress d)
             then [mkError nodeId ''Proxy OUTPUT requires a server address''] else [])
          @ (if (case serverPort d of None \<Rightarrow> True | Some p \<Rightarrow> p = 0 \<or> \<not> isValidPort p)
             then [mkError nodeId ''Proxy OUTPUT requires a valid server port (1-65535)'']
             else [])
        else [])"

definition validateSimpleServer :: "string \<Rightarrow> SimpleServerData \<Rightarrow> ValidationIssue list" where
  "validateSimpleServer nodeId d =
       (if blank (ss_host d) then [mkError nodeId ''Server requires a host address''] else [])
     @ (if \<not> isValidPort (ss_port d)
        then [mkError nodeId (''Invalid port: '' @ showInt (ss_port d) @ ''. Must be 1-65535'')]
        else [])
     @ (if ss_protocol d \<in> set [''vless'', ''vmess''] then
          (if blankOpt (ss_uuid d)
           then [mkWarning nodeId (ss_protocol d @ '' server should have a UUID configured'')]
           else if \<not> UUID_RE (listOf (ss_uuid d))
           then [mkError nodeId (''Invalid UUID: \"'' @ listOf (ss_uuid d) @ ''\"'')]
           else [])
        else [])
     @ (if ss_protocol d \<in> set [''trojan'', ''shadowsocks''] \<and> blankOpt (ss_password d)
        then [mkWarning nodeId (ss_protocol d @ '' server should have a password configured'')]
        else [])
     @ (if ss_security d = Reality then
            (if ss_network d \<notin> set [Raw, Xhttp]
             then [mkError nodeId
                     (''Reality security only works with RAW or XHTTP transport (currently: ''
                      @ networkName (ss_network d) @ '')'')]
             else [])
          @ (if \<not> truthyStr (ss_realityPublicKey d)
             then [mkError nodeId ''Reality security requires a public key''] else [])
        else [])
     @ (if ss_security d = Tls \<and> \<not> truthyStr (ss_sni d)
        then [mkWarning nodeId ''TLS security should have an SNI configured''] else [])
     @ (if ss_network d = Ws \<and> \<not> truthyStr (ss_wsPath d)
        then [mkWarning nodeId ''WebSocket transport should have a path configured''] else [])
     @ (if ss_network d = Grpc \<and> \<not> truthyStr (ss_grpcServiceName d)
        then [mkWarning nodeId ''gRPC transport should have a service name configured'']
        else [])"

definition validateSimpleRule :: "string \<Rightarrow> nat \<times> SimpleRuleCondition \<Rightarrow> ValidationIssue list" where
  "validateSimpleRule nodeId ir =
     (case ir of (i, rule) \<Rightarrow>
        if cond_type rule \<noteq> ''all'' \<and> blank (cond_value rule)
        then [mkError nodeId
                (''Rule '' @ showNat (i + 1) @ '' ('' @ cond_type rule @ '') has no value'')]
        else [])"

definition validateSimpleRules :: "string \<Rightarrow> SimpleRulesData \<Rightarrow> ValidationIssue list" where
  "validateSimpleRules nodeId d =
     (if sr_rules d = []
      then [mkWarning nodeId
              (''Rules node has no rules defined '' @ emdash @ '' will match nothing'')]
      else concat (map (validateSimpleRule nodeId) (enumerate 0 (sr_rules d))))"

text \<open>The \<^verbatim>\<open>switch\<close> of \<^verbatim>\<open>validateGraph\<close> over one node.\<close>

definition validateNode :: "XrayNode \<Rightarrow> ValidationIssue list" where
  "validateNode n =
     (case node_data n of
        InboundNode d \<Rightarrow> validateInbound (node_id n) d
      | RoutingNode d \<Rightarrow> validateRouting (node_id n) d
      | BalancerNode d \<Rightarrow> validateBalancer (node_id n) d
      | OutboundTerminalNode d \<Rightarrow> validateOutbound (node_id n) d OutboundTerminal
      | OutboundProxyNode d \<Rightarrow> validateOutbound (node_id n) d OutboundProxy
      | SimpleServerNode d \<Rightarrow> validateSimpleServer (node_id n) d
      | SimpleRulesNode d \<Rightarrow> validateSimpleRules (node_id n) d
      | _ \<Rightarrow> [])"

subsection \<open>Transport validation\<close>

definition hasStr :: "'a option \<Rightarrow> ('a \<Rightarrow> string option) \<Rightarrow> bool" where
  "hasStr settings field = (case settings of None \<Rightarrow> False | Some s \<Rightarrow> truthyStr (field s))"

definition validateTransport :: "string \<Rightarrow> TransportSettings \<Rightarrow> ValidationIssue list" where
  "validateTransport nodeId transport =
       (if security transport = Reality \<and> network transport \<notin> set [Raw, Xhttp]
        then [mkError nodeId
                (''Reality security only works with RAW or XHTTP transport (currently: ''
                 @ networkName (network transport) @ '')'')]
        else [])
     @ (if network transport = Ws \<and> \<not> hasStr (wsSettings transport) ws_path
        then [mkWarning nodeId ''WebSocket transport should have a path configured''] else [])
     @ (if network transport = Grpc \<and> \<not> hasStr (grpcSettings transport) grpc_serviceName
        then [mkWarning nodeId ''gRPC transport should have a serviceName configured''] else [])
     @ (if security transport = Tls \<and> \<not> hasStr (tlsSettings transport) tls_serverName
        then [mkWarning nodeId ''TLS security should have a serverName configured''] else [])
     @ (if security transport = Reality then
            (if \<not> hasStr (realitySettings transport) reality_publicKey
             then [mkError nodeId ''Reality security requires a publicKey''] else [])
          @ (if \<not> hasStr (realitySettings transport) reality_shortId
             then [mkWarning nodeId ''Reality security should have a shortId configured'']
             else [])
          @ (if \<not> hasStr (realitySettings transport) reality_serverName
             then [mkWarning nodeId ''Reality security should have a serverName configured'']
             else [])
        else [])"

text \<open>
  \<^verbatim>\<open>new Map(nodes.map(n => [n.id, serverId]))\<close> followed by \<^verbatim>\<open>get\<close>: the last node of
  an identifier wins, an unknown identifier gives \<^verbatim>\<open>undefined\<close>.
\<close>

definition nodeServerMap :: "XrayNode list \<Rightarrow> string \<Rightarrow> string option" where
  "nodeServerMap nodes nodeId =
     (case find (\<lambda>n. node_id n = nodeId) (rev nodes) of
        None \<Rightarrow> None
      | Some n \<Rightarrow> serverId n)"

definition edgeTransportOf :: "XrayEdge \<Rightarrow> TransportSettings option" where
  "edgeTransportOf e = (case edge_data e of None \<Rightarrow> None | Some d \<Rightarrow> edge_transport d)"

definition validateEdgeTransport :: "XrayNode list \<Rightarrow> XrayEdge \<Rightarrow> ValidationIssue list" where
  "validateEdgeTransport nodes e =
     (if nodeServerMap nodes (source e) = nodeServerMap nodes (target e) then []
      else (case edgeTransportOf e of
              None \<Rightarrow> []
            | Some transport \<Rightarrow> validateTransport (source e) transport))"


subsection \<open>Structural validation\<close>

text \<open>
  The \<^verbatim>\<open>Map<string, string[]>\<close> built by \<^verbatim>\<open>get\<close>, \<^verbatim>\<open>push\<close> and \<^verbatim>\<open>set\<close>: an association
  list in insertion order of the keys; a known key keeps its place.
\<close>

fun pushTo :: "string \<Rightarrow> string \<Rightarrow> (string \<times> string list) list \<Rightarrow> (string \<times> string list) list" where
  "pushTo key v [] = [(key, [v])]"
| "pushTo key v ((k, vs) # m) =
     (if k = key then (k, vs @ [v]) # m else (k, vs) # pushTo key v m)"

text \<open>\<^verbatim>\<open>tag && tag.trim() !== ''\<close> on \<^verbatim>\<open>'tag' in data ? data.tag : undefined\<close>.\<close>

definition countedTag :: "XrayNode \<Rightarrow> string option" where
  "countedTag n =
     (case dataTag (node_data n) of
        None \<Rightarrow> None
      | Some tag \<Rightarrow> if tag \<noteq> [] \<and> trim tag \<noteq> [] then Some tag else None)"

definition collectTags :: "XrayNode list \<Rightarrow> (string \<times> string list) list" where
  "collectTags nodes =
     foldl (\<lambda>tags n. case countedTag n of None \<Rightarrow> tags | Some tag \<Rightarrow> pushTo tag (node_id n) tags)
       [] nodes"

definition duplicateTagIssues :: "XrayNode list \<Rightarrow> ValidationIssue list" where
  "duplicateTagIssues nodes =
     concat (map (\<lambda>(tag, nodeIds).
                    if length nodeIds > 1
                    then map (\<lambda>i. mkError i (''Duplicate tag: \"'' @ tag @ ''\"'')) nodeIds
                    else [])
               (collectTags nodes))"

definition collectPorts :: "XrayNode list \<Rightarrow> (string \<times> string list) list" where
  "collectPorts nodes =
     foldl (\<lambda>portMap n. case node_data n of
                           InboundNode d \<Rightarrow> pushTo (showInt (in_port d)) (node_id n) portMap
                         | _ \<Rightarrow> portMap)
       [] nodes"

definition portConflictIssues :: "XrayNode list \<Rightarrow> ValidationIssue list" where
  "portConflictIssues nodes =
     concat (map (\<lambda>(port, nodeIds).
                    if length nodeIds > 1
                    then map (\<lambda>i. mkError i
                                 (''Port conflict: port '' @ port @ '' used by multiple INPUT nodes''))
                           nodeIds
                    else [])
               (collectPorts nodes))"

definition nodesOfType :: "NodeType \<Rightarrow> XrayNode list \<Rightarrow> XrayNode list" where
  "nodesOfType t nodes = filter (\<lambda>n. nodeType (node_data n) = t) nodes"

definition hasOutgoing :: "XrayEdge list \<Rightarrow> XrayNode \<Rightarrow> bool" where
  "hasOutgoing edges n = list_ex (\<lambda>e. source e = node_id n) edges"

definition hasIncoming :: "XrayEdge list \<Rightarrow> XrayNode \<Rightarrow> bool" where
  "hasIncoming edges n = list_ex (\<lambda>e. target e = node_id n) edges"

definition hasDeviceOrProxy :: "XrayNode list \<Rightarrow> XrayEdge list \<Rightarrow> XrayNode \<Rightarrow> bool" where
  "hasDeviceOrProxy nodes edges n =
     list_ex (\<lambda>e. target e = node_id n
                \<and> (case find (\<lambda>m. node_id m = source e) nodes of
                      None \<Rightarrow> False
                    | Some sourceNode \<Rightarrow> nodeType (node_data sourceNode) = OutboundProxy))
       edges"

text \<open>One issue for every node of the list that fails the test.\<close>

definition issuesWhere :: "(XrayNode \<Rightarrow> bool) \<Rightarrow> (string \<Rightarrow> ValidationIssue) \<Rightarrow> XrayNode list
    \<Rightarrow> ValidationIssue list" where
  "issuesWhere bad issue nodes = map (\<lambda>n. issue (node_id n)) (filter bad nodes)"

definition deviceEdgeIssues :: "XrayNode list \<Rightarrow> XrayNode \<Rightarrow> string \<Rightarrow> XrayEdge \<Rightarrow> ValidationIssue list" where
  "deviceEdgeIssues nodes device connType edge =
     (case find (\<lambda>n. node_id n = target edge) nodes of
        None \<Rightarrow> []
      | Some targetNode \<Rightarrow>
          (case node_data targetNode of
             OutboundProxyNode outboundData \<Rightarrow>
               (let outboundProtocol = out_protocol outboundData;
                    requiredProtocol = (if connType = ''http'' then ''http'' else ''socks'')
                in if outboundProtocol \<noteq> requiredProtocol
                   then [mkError (node_id device)
                           (''Device with \"'' @ connType @ ''\" connection must connect to a \"''
                            @ requiredProtocol @ ''\" OUTPUT, but \"'' @ out_tag outboundData
                            @ ''\" uses \"'' @ outboundProtocol @ ''\"''),
                         mkError (node_id targetNode)
                           (''OUTPUT protocol \"'' @ outboundProtocol
                            @ ''\" is incompatible with connected device using \"'' @ connType
                            @ ''\". Expected \"'' @ requiredProtocol @ ''\"'')]
                   else [])
           | _ \<Rightarrow> []))"

definition deviceIssues :: "XrayNode list \<Rightarrow> XrayEdge list \<Rightarrow> XrayNode \<Rightarrow> ValidationIssue list" where
  "deviceIssues nodes edges device =
     (case node_data device of
        DeviceNode deviceData \<Rightarrow>
          concat (map (deviceEdgeIssues nodes device (connectionType deviceData))
                    (filter (\<lambda>e. source e = node_id device) edges))
      | _ \<Rightarrow> [])"

text \<open>
  \<^verbatim>\<open>canReachOutbound\<close> is recursive and shares the set \<^verbatim>\<open>visited\<close> between the calls
  of \<^verbatim>\<open>outgoing.some\<close>. The first argument bounds the depth of the recursion; \<open>None\<close>
  is a call that does not return within that depth.
\<close>

fun canReachOutbound ::
    "nat \<Rightarrow> string \<Rightarrow> XrayEdge list \<Rightarrow> string set \<Rightarrow> string set \<Rightarrow> (bool \<times> string set) option"
  and canReachSome ::
    "nat \<Rightarrow> XrayEdge list \<Rightarrow> XrayEdge list \<Rightarrow> string set \<Rightarrow> string set \<Rightarrow> (bool \<times> string set) option"
where
  "canReachOutbound 0 nodeId edges outboundIds visited = None"
| "canReachOutbound (Suc depth) nodeId edges outboundIds visited =
     (if nodeId \<in> outboundIds then Some (True, visited)
      else if nodeId \<in> visited then Some (False, visited)
      else canReachSome depth (filter (\<lambda>e. source e = nodeId) edges) edges outboundIds
             (insert nodeId visited))"
| "canReachSome depth [] edges outboundIds visited = Some (False, visited)"
| "canReachSome depth (e # outgoing) edges outboundIds visited =
     (case canReachOutbound depth (target e) edges outboundIds visited of
        None \<Rightarrow> None
      | Some (True, visited') \<Rightarrow> Some (True, visited')
      | Some (False, visited') \<Rightarrow> canReachSome depth outgoing edges outboundIds visited')"

definition unreachableIssue :: "string \<Rightarrow> ValidationIssue" where
  "unreachableIssue nodeId =
     mkWarning nodeId
       ''INPUT node cannot reach any terminal OUTPUT (Freedom/Blackhole/DNS). Traffic has no final destination.''"

text \<open>The \<^verbatim>\<open>forEach\<close> over the inbound nodes, each with a fresh \<^verbatim>\<open>visited\<close> set.\<close>

fun reachabilityIssues ::
  "nat \<Rightarrow> XrayEdge list \<Rightarrow> string set \<Rightarrow> XrayNode list \<Rightarrow> ValidationIssue list option" where
  "reachabilityIssues depth edges terminalIds [] = Some []"
| "reachabilityIssues depth edges terminalIds (inbound # rest) =
     (case canReachOutbound depth (node_id inbound) edges terminalIds {} of
        None \<Rightarrow> None
      | Some (reached, visited) \<Rightarrow>
          (case reachabilityIssues depth edges terminalIds rest of
             None \<Rightarrow> None
           | Some others \<Rightarrow>
               Some ((if reached then [] else [unreachableIssue (node_id inbound)]) @ others)))"

subsection \<open>Cycle detection\<close>

text \<open>\<^verbatim>\<open>nodeTypes.get(id)\<close>: the kind of the last node of that identifier.\<close>

definition nodeTypes :: "XrayNode list \<Rightarrow> string \<Rightarrow> NodeType option" where
  "nodeTypes nodes nodeId =
     (case find (\<lambda>n. node_id n = nodeId) (rev nodes) of
        None \<Rightarrow> None
      | Some n \<Rightarrow> Some (nodeType (node_data n)))"

text \<open>
  \<^verbatim>\<open>adjacency.get(id) || []\<close>: for the identifier of a node, the targets of its edges
  in edge order, without the edges from a proxy outbound to an inbound.
\<close>

definition adjacency :: "XrayNode list \<Rightarrow> XrayEdge list \<Rightarrow> string \<Rightarrow> string list" where
  "adjacency nodes edges nodeId =
     (if nodeId \<in> node_id ` set nodes
      then map target
             (filter (\<lambda>e. source e = nodeId
                        \<and> \<not> (nodeTypes nodes (source e) = Some OutboundProxy
                             \<and> nodeTypes nodes (target e) = Some Inbound))
                edges)
      else [])"

record DfsState =
  dfs_visited :: "string set"
  inStack :: "string set"
  dfs_issues :: "ValidationIssue list"

definition cycleIssue :: "string \<Rightarrow> ValidationIssue" where
  "cycleIssue nodeId =
     mkError nodeId
       (''Cycle detected in graph '' @ emdash @ '' traffic would loop indefinitely'')"

text \<open>
  The inner function \<^verbatim>\<open>dfs\<close> with its \<^verbatim>\<open>for\<close> loop over the neighbours; the first
  argument bounds the depth of the recursion as for \<open>canReachOutbound\<close>.
\<close>

fun dfs :: "nat \<Rightarrow> (string \<Rightarrow> string list) \<Rightarrow> string \<Rightarrow> DfsState \<Rightarrow> (bool \<times> DfsState) option"
  and dfsNeighbors ::
    "nat \<Rightarrow> (string \<Rightarrow> string list) \<Rightarrow> string \<Rightarrow> string list \<Rightarrow> DfsState \<Rightarrow> (bool \<times> DfsState) option"
where
  "dfs 0 adj nodeId s = None"
| "dfs (Suc depth) adj nodeId s =
     (if nodeId \<in> inStack s then Some (True, s)
      else if nodeId \<in> dfs_visited s then Some (False, s)
      else dfsNeighbors depth adj nodeId (adj nodeId)
             (s\<lparr>dfs_visited := insert nodeId (dfs_visited s),
                inStack := insert nodeId (inStack s)\<rparr>))"
| "dfsNeighbors depth adj nodeId [] s = Some (False, s\<lparr>inStack := inStack s - {nodeId}\<rparr>)"
| "dfsNeighbors depth adj nodeId (neighbor # rest) s =
     (case dfs depth adj neighbor s of
        None \<Rightarrow> None
      | Some (True, s') \<Rightarrow> Some (True, s'\<lparr>dfs_issues := dfs_issues s' @ [cycleIssue nodeId]\<rparr>)
      | Some (False, s') \<Rightarrow> dfsNeighbors depth adj nodeId rest s')"

text \<open>The final \<^verbatim>\<open>for\<close> loop of \<^verbatim>\<open>detectCycles\<close> over all nodes.\<close>

fun dfsAll :: "nat \<Rightarrow> (string \<Rightarrow> string list) \<Rightarrow> XrayNode list \<Rightarrow> DfsState \<Rightarrow> DfsState option" where
  "dfsAll depth adj [] s = Some s"
| "dfsAll depth adj (n # rest) s =
     (if node_id n \<in> dfs_visited s then dfsAll depth adj rest s
      else (case dfs depth adj (node_id n) s of
              None \<Rightarrow> None
            | Some (found, s') \<Rightarrow> dfsAll depth adj rest s'))"

definition detectCycles :: "nat \<Rightarrow> XrayNode list \<Rightarrow> XrayEdge list \<Rightarrow> ValidationIssue list option" where
  "detectCycles depth nodes edges =
     map_option dfs_issues
       (dfsAll depth (adjacency nodes edges) nodes
          \<lparr>dfs_visited = {}, inStack = {}, dfs_issues = []\<rparr>)"

definition validateStructure :: "nat \<Rightarrow> XrayNode list \<Rightarrow> XrayEdge list \<Rightarrow> ValidationIssue list option" where
  "validateStructure depth nodes edges =
     (let inboundNodes = nodesOfType Inbound nodes;
          proxyNodes = nodesOfType OutboundProxy nodes;
          terminalIds = node_id ` set (nodesOfType OutboundTerminal nodes);
          before =
              duplicateTagIssues nodes
            @ portConflictIssues nodes
            @ issuesWhere (\<lambda>n. \<not> hasOutgoing edges n)
                (\<lambda>i. mkWarning i ''INPUT node has no outgoing connections'') inboundNodes
            @ issuesWhere (\<lambda>n. \<not> hasDeviceOrProxy nodes edges n)
                (\<lambda>i. mkWarning i
                   ''No upstream OUTPUT connects to this INPUT. It's OK if you're just planning the infrastructure side.'')
                inboundNodes
            @ concat (map (deviceIssues nodes edges) (nodesOfType Device nodes))
            @ issuesWhere (\<lambda>n. \<not> hasIncoming edges n)
                (\<lambda>i. mkWarning i ''Terminal OUTPUT has no incoming connections'')
                (nodesOfType OutboundTerminal nodes)
            @ issuesWhere (\<lambda>n. \<not> hasIncoming edges n)
                (\<lambda>i. mkWarning i ''Proxy OUTPUT has no incoming connections'') proxyNodes
            @ issuesWhere (\<lambda>n. \<not> hasOutgoing edges n)
                (\<lambda>i. mkWarning i
                   (''Proxy OUTPUT is a dead-end '' @ emdash
                    @ '' no connection to a downstream INPUT node. In infrastructure mode, connect it to an INPUT on the exit server.''))
                proxyNodes
            @ issuesWhere (\<lambda>n. \<not> hasIncoming edges n)
                (\<lambda>i. mkWarning i ''Server has no incoming connections'')
                (nodesOfType SimpleServer nodes)
            @ issuesWhere (\<lambda>n. \<not> hasIncoming edges n)
                (\<lambda>i. mkWarning i ''Terminal node has no incoming connections'')
                (filter (\<lambda>n. nodeType (node_data n) = SimpleInternet
                            \<or> nodeType (node_data n) = SimpleBlock) nodes)
      in case reachabilityIssues depth edges terminalIds inboundNodes of
           None \<Rightarrow> None
         | Some reach \<Rightarrow>
             (case detectCycles depth nodes edges of
                None \<Rightarrow> None
              | Some cycles \<Rightarrow> Some (before @ reach @ cycles)))"

subsection \<open>Cross-reference validation and the entry point\<close>

definition allTags :: "XrayNode list \<Rightarrow> string list" where
  "allTags nodes =
     remdups (concat (map (\<lambda>n. case dataTag (node_data n) of
                                  None \<Rightarrow> []
                                | Some tag \<Rightarrow> if tag \<noteq> [] then [tag] else []) nodes))"

definition validateConfigNode :: "string list \<Rightarrow> XrayNode \<Rightarrow> ValidationIssue list" where
  "validateConfigNode tags n =
     (case node_data n of
        RoutingNode d \<Rightarrow>
          if truthyStr (rt_inboundTag d) \<and> listOf (rt_inboundTag d) \<notin> set tags
          then [mkWarning (node_id n)
                  (''Routing references inboundTag \"'' @ listOf (rt_inboundTag d)
                   @ ''\" which doesn't match any INPUT tag'')]
          else []
      | _ \<Rightarrow> [])"

definition validateSelectors :: "string list \<Rightarrow> XrayNode \<Rightarrow> ValidationIssue list" where
  "validateSelectors tags n =
     (case node_data n of
        BalancerNode d \<Rightarrow>
          map (\<lambda>sel. mkWarning (node_id n)
                 (''Balancer selector \"'' @ sel @ ''\" doesn't match any OUTPUT tag''))
            (filter (\<lambda>sel. \<not> list_ex (\<lambda>tag. prefix sel tag) tags) (selector d))
      | _ \<Rightarrow> [])"

definition validateConfig :: "XrayNode list \<Rightarrow> XrayEdge list \<Rightarrow> ValidationIssue list" where
  "validateConfig nodes edges =
       concat (map (validateConfigNode (allTags nodes)) nodes)
     @ concat (map (validateSelectors (allTags nodes)) nodes)"

text \<open>
  \<^verbatim>\<open>validateGraph\<close>. The result is \<open>None\<close> when one of the two recursive searches
  does not return within the depth given as first argument.
\<close>

definition validateGraph :: "nat \<Rightarrow> XrayNode list \<Rightarrow> XrayEdge list \<Rightarrow> ValidationResult option" where
  "validateGraph depth nodes edges =
     (case validateStructure depth nodes edges of
        None \<Rightarrow> None
      | Some structural \<Rightarrow>
          (let issues =
                   concat (map validateNode nodes)
                 @ concat (map (validateEdgeTransport nodes) edges)
                 @ structural
                 @ validateConfig nodes edges;
               errs = filter (\<lambda>i. issue_level i = LevelError) issues
           in Some \<lparr>result_valid = (errs = []),
                    errors = errs,
                    warnings = filter (\<lambda>i. issue_level i = LevelWarning) issues,
                    infos = filter (\<lambda>i. issue_level i = LevelInfo) issues\<rparr>))"




subsection \<open>Scenarios and side conditions for the validator's properties\<close>






text \<open>An error-level issue with the message of \<^verbatim>\<open>detectCycles\<close>.\<close>

definition isCycleIssue :: "ValidationIssue \<Rightarrow> bool" where
  "isCycleIssue i =
     (issue_level i = LevelError
      \<and> message i = ''Cycle detected in graph '' @ emdash @ '' traffic would loop indefinitely'')"

text \<open>Three routing nodes in a ring, for any identifiers and payloads.\<close>

definition isRoutingRing ::
  "XrayNode \<Rightarrow> XrayNode \<Rightarrow> XrayNode \<Rightarrow> XrayEdge \<Rightarrow> XrayEdge \<Rightarrow> XrayEdge \<Rightarrow> bool" where
  "isRoutingRing n1 n2 n3 e1 e2 e3 =
     (distinct [node_id n1, node_id n2, node_id n3]
      \<and> nodeType (node_data n1) = Routing \<and> nodeType (node_data n2) = Routing
      \<and> nodeType (node_data n3) = Routing
      \<and> source e1 = node_id n1 \<and> target e1 = node_id n2
      \<and> source e2 = node_id n2 \<and> target e2 = node_id n3
      \<and> source e3 = node_id n3 \<and> target e3 = node_id n1)"

text \<open>
  The ring outbound-proxy(A) \<open>\<rightarrow>\<close> inbound(B) \<open>\<rightarrow>\<close> outbound-proxy(B) \<open>\<rightarrow>\<close> inbound(A)
  \<open>\<rightarrow>\<close> outbound-proxy(A), for any identifiers and payloads.
\<close>

definition isProxyRing ::
  "XrayNode \<Rightarrow> XrayNode \<Rightarrow> XrayNode \<Rightarrow> XrayNode \<Rightarrow> XrayEdge \<Rightarrow> XrayEdge \<Rightarrow> XrayEdge \<Rightarrow> XrayEdge
   \<Rightarrow> bool" where
  "isProxyRing pA iB pB iA e1 e2 e3 e4 =
     (distinct [node_id pA, node_id iB, node_id pB, node_id iA]
      \<and> nodeType (node_data pA) = OutboundProxy \<and> nodeType (node_data iB) = Inbound
      \<and> nodeType (node_data pB) = OutboundProxy \<and> nodeType (node_data iA) = Inbound
      \<and> source e1 = node_id pA \<and> target e1 = node_id iB
      \<and> source e2 = node_id iB \<and> target e2 = node_id pB
      \<and> source e3 = node_id pB \<and> target e3 = node_id iA
      \<and> source e4 = node_id iA \<and> target e4 = node_id pA)"

definition routingRing :: "XrayNode list" where
  "routingRing =
     [mkNode ''r1'' (RoutingNode (mkRouting ''rule-1'')),
      mkNode ''r2'' (RoutingNode (mkRouting ''rule-2'')),
      mkNode ''r3'' (RoutingNode (mkRouting ''rule-3''))]"

definition ringEdges :: "XrayEdge list" where
  "ringEdges =
     [mkEdge ''e1'' ''r1'' ''r2'', mkEdge ''e2'' ''r2'' ''r3'', mkEdge ''e3'' ''r3'' ''r1'']"

definition proxyRing :: "XrayNode list" where
  "proxyRing =
     [(mkNode ''pA'' (OutboundProxyNode (mkOutbound ''to-b'' ''vless'')))\<lparr>serverId := Some ''A''\<rparr>,
      (mkNode ''iB'' (InboundNode (mkInbound ''in-b'' ''vless'' 443)))\<lparr>serverId := Some ''B''\<rparr>,
      (mkNode ''pB'' (OutboundProxyNode (mkOutbound ''to-a'' ''vless'')))\<lparr>serverId := Some ''B''\<rparr>,
      (mkNode ''iA'' (InboundNode (mkInbound ''in-a'' ''vless'' 8443)))\<lparr>serverId := Some ''A''\<rparr>]"

definition proxyRingEdges :: "XrayEdge list" where
  "proxyRingEdges =
     [mkEdge ''e1'' ''pA'' ''iB'', mkEdge ''e2'' ''iB'' ''pB'',
      mkEdge ''e3'' ''pB'' ''iA'', mkEdge ''e4'' ''iA'' ''pA'']"

section \<open>Termination of the simulator's loop\<close>

lemma getNodeById_mem: "getNodeById i nodes = Some n \<Longrightarrow> n \<in> set nodes"
  by (auto simp: getNodeById_def find_Some_iff)

lemma follow_Continue:
  "follow st e nodes = Continue st' nxt \<Longrightarrow>
     sim_visited st' = sim_visited st \<and> (\<forall>m. nxt = Some m \<longrightarrow> m \<in> set nodes)"
  by (auto simp: follow_def dest: getNodeById_mem)

lemma balancerStep_Continue:
  "balancerStep env nodes st d outgoing = Continue st' nxt \<Longrightarrow>
     sim_visited st' = sim_visited st \<and> (\<forall>m. nxt = Some m \<longrightarrow> m \<in> set nodes)"
  unfolding balancerStep_def Let_def
  by (auto split: sum.splits if_splits option.splits dest!: follow_Continue)

lemma visitNode_Continue:
  "visitNode env input nodes edges st cur = Continue st' nxt \<Longrightarrow>
     sim_visited st' = sim_visited st \<and> (\<forall>m. nxt = Some m \<longrightarrow> m \<in> set nodes)"
  unfolding visitNode_def Let_def
  by (auto split: XrayNodeData.splits list.splits if_splits option.splits
           dest!: follow_Continue balancerStep_Continue dest: getNodeById_mem)

termination simLoop
proof (relation "measure (\<lambda>(env, input, nodes, edges, st, cur). loopMeasure nodes st cur)")
  show "wf (measure (\<lambda>(env, input, nodes, edges, st, cur). loopMeasure nodes st cur))" by simp
next
  fix env :: SimEnv and input nodes edges st currentNode st' nxt
  assume nv: "node_id currentNode \<notin> sim_visited st"
    and c: "visitNode env input nodes edges (recordVisit st currentNode) currentNode = Continue st' nxt"
  from visitNode_Continue[OF c]
  have v: "sim_visited st' = insert (node_id currentNode) (sim_visited st)"
    and m: "\<And>m. nxt = Some m \<Longrightarrow> m \<in> set nodes"
    by (auto simp: recordVisit_def)
  let ?U = "node_id ` set nodes"
  have nx: "(case nxt of None \<Rightarrow> 0 | Some n \<Rightarrow> if node_id n \<in> ?U then 0 else 1) = (0::nat)"
    using m by (auto split: option.splits)
  have "loopMeasure nodes st' nxt < loopMeasure nodes st (Some currentNode)"
  proof (cases "node_id currentNode \<in> ?U")
    case True
    have "card (?U - insert (node_id currentNode) (sim_visited st)) < card (?U - sim_visited st)"
      using True nv by (intro psubset_card_mono) auto
    then show ?thesis using True by (simp add: loopMeasure_def v nx)
  next
    case False
    then have "?U - insert (node_id currentNode) (sim_visited st) = ?U - sim_visited st" by auto
    then show ?thesis using False by (simp add: loopMeasure_def v nx)
  qed
  then show "((env, input, nodes, edges, st', nxt), (env, input, nodes, edges, st, Some currentNode))
        \<in> measure (\<lambda>(env, input, nodes, edges, st, cur). loopMeasure nodes st cur)"
    by simp
qed

section \<open>Properties of the connection rule checker\<close>

text \<open>
  C10. \<^verbatim>\<open>isValidConnection\<close> answers valid exactly on the pairs of the fixed adjacency
  table; on every other pair it answers invalid and gives a reason (the reason is
  present exactly when the answer is invalid); a terminal outbound is never a
  valid source.
\<close>

theorem isValidConnection_table:
  "valid (isValidConnection s t) = ((s, t) \<in> adjacencyTable)
   \<and> (reason (isValidConnection s t) = None) = valid (isValidConnection s t)
   \<and> valid (isValidConnection OutboundTerminal t) = False"
  by (cases s; cases t) (simp_all add: isValidConnection_def adjacencyTable_def)

section \<open>Properties of the traffic simulator\<close>

lemmas sim_defs =
  runSimulation_def visitNode_def recordVisit_def sim_getOutgoingEdges_def getNodeById_def
  follow_def finish_def doesRoutingMatch_def matchDomainRule_def toLowerCase_def
  toLowerChar_def upperLetters_def lowerLetters_def Let_def balancerStep_def
  isValidTarget_def elemAt_def randomIndex_def appendToLastDescription_def edgePriority_def
  stepTag_def cycleResult_def

lemmas mk_defs =
  mkNode_def mkEdge_def mkInbound_def mkOutbound_def mkRouting_def constEnv_def
  exampleInput_def

subsection \<open>The scenario of the specification\<close>

text \<open>
  C4 as the specification words it asks for \<^verbatim>\<open>finalOutbound\<close> undefined. On the
  scenario graph the simulator stops at the proxy outbound and reports its tag:
  \<^verbatim>\<open>finalOutbound\<close> is \<^verbatim>\<open>out1\<close>.
\<close>

theorem runSimulation_scenario_finalOutbound:
  "map_sum id finalOutbound (runSimulation (constEnv 0) exampleInput scenarioNodes scenarioEdges)
     = Inr (Some ''out1'')"
  by (simp add: sim_defs mk_defs scenarioNodes_def scenarioEdges_def)

lemma isScenarioD:
  assumes "isScenario n1 n2 n3 e1 e2"
  obtains d1 d2 d3 where
    "node_id n1 \<noteq> node_id n2" "node_id n1 \<noteq> node_id n3" "node_id n2 \<noteq> node_id n3"
    "node_data n1 = InboundNode d1" "in_tag d1 = ''in1''"
    "node_data n2 = RoutingNode d2" "rt_domain d2 = Some [''domain:example.com'']"
    "rt_ip d2 = None" "rt_port d2 = None" "rt_protocol d2 = None" "rt_network d2 = None"
    "rt_inboundTag d2 = None"
    "node_data n3 = OutboundProxyNode d3" "out_tag d3 = ''out1''"
    "source e1 = node_id n1" "target e1 = node_id n2"
    "source e2 = node_id n2" "target e2 = node_id n3"
proof -
  from assms obtain d1 where 1: "node_data n1 = InboundNode d1"
    by (cases "node_data n1") (simp_all add: isScenario_def)
  from assms obtain d2 where 2: "node_data n2 = RoutingNode d2"
    by (cases "node_data n2") (simp_all add: isScenario_def)
  from assms obtain d3 where 3: "node_data n3 = OutboundProxyNode d3"
    by (cases "node_data n3") (simp_all add: isScenario_def)
  from assms 1 2 3 that [of d1 d2 d3] show thesis
    by (simp add: isScenario_def)
qed

text \<open>
  C4, amended. For every graph of the scenario's shape (inbound \<^verbatim>\<open>in1\<close> on 443 with
  vless, a routing node whose only predicate is the domain rule
  \<^verbatim>\<open>domain:example.com\<close>, proxy outbound \<^verbatim>\<open>out1\<close> without outgoing edge), simulating
  \<^verbatim>\<open>example.com\<close>, tcp, 443 from \<^verbatim>\<open>in1\<close> returns success, a path of exactly three steps
  whose last step is of kind outbound-proxy, and \<^verbatim>\<open>finalOutbound\<close> equal to the
  proxy's tag \<^verbatim>\<open>out1\<close>.
\<close>

theorem runSimulation_scenario:
  assumes "isScenario n1 n2 n3 e1 e2"
  shows "\<exists>r. runSimulation env exampleInput [n1, n2, n3] [e1, e2] = Inr r
           \<and> success r \<and> length (path r) = 3
           \<and> step_nodeType (last (path r)) = OutboundProxy
           \<and> finalOutbound r = Some ''out1''"
proof -
  from assms obtain d1 d2 d3 where f:
    "node_id n1 \<noteq> node_id n2" "node_id n1 \<noteq> node_id n3" "node_id n2 \<noteq> node_id n3"
    "node_data n1 = InboundNode d1" "in_tag d1 = ''in1''"
    "node_data n2 = RoutingNode d2" "rt_domain d2 = Some [''domain:example.com'']"
    "rt_ip d2 = None" "rt_port d2 = None" "rt_protocol d2 = None" "rt_network d2 = None"
    "rt_inboundTag d2 = None"
    "node_data n3 = OutboundProxyNode d3" "out_tag d3 = ''out1''"
    "source e1 = node_id n1" "target e1 = node_id n2"
    "source e2 = node_id n2" "target e2 = node_id n3"
    by (rule isScenarioD)
  from f(1-3)
  have g: "node_id n2 \<noteq> node_id n1" "node_id n3 \<noteq> node_id n1" "node_id n3 \<noteq> node_id n2"
    by auto
  show ?thesis using f g by (simp add: sim_defs exampleInput_def)
qed

theorem runSimulation_scenario_witness:
  "isScenario (scenarioNodes ! 0) (scenarioNodes ! 1) (scenarioNodes ! 2)
     (scenarioEdges ! 0) (scenarioEdges ! 1)
   \<and> (\<exists>r. runSimulation (constEnv 0) exampleInput scenarioNodes scenarioEdges = Inr r
           \<and> success r \<and> length (path r) = 3
           \<and> step_nodeType (last (path r)) = OutboundProxy
           \<and> finalOutbound r = Some ''out1'')"
proof -
  have h: "isScenario (scenarioNodes ! 0) (scenarioNodes ! 1) (scenarioNodes ! 2)
             (scenarioEdges ! 0) (scenarioEdges ! 1)"
    by (simp add: isScenario_def scenarioNodes_def scenarioEdges_def mk_defs)
  have n: "[scenarioNodes ! 0, scenarioNodes ! 1, scenarioNodes ! 2] = scenarioNodes"
    by (simp add: scenarioNodes_def)
  have e: "[scenarioEdges ! 0, scenarioEdges ! 1] = scenarioEdges"
    by (simp add: scenarioEdges_def)
  from runSimulation_scenario [OF h, of "constEnv 0"] h show ?thesis
    unfolding n e by (rule conjI [rotated])
qed

subsection \<open>Balancer candidates\<close>

text \<open>
  C3 says that a target whose tag only contains a selector entry in its interior is
  not a candidate. The simulator tests \<^verbatim>\<open>tag.includes(sel)\<close>: with selector
  \<^verbatim>\<open>proxy\<close>, the edge to \<^verbatim>\<open>my-proxy-1\<close> is a candidate, comes first and is taken, where
  a prefix test would leave only the edge to \<^verbatim>\<open>proxy-2\<close>.
\<close>

theorem runSimulation_selector_substring:
  "candidates selectorBalancer (selectorNodes ! 1) selectorNodes balancerEdges
     = Inr [mkEdge ''e2'' ''n2'' ''n3'', mkEdge ''e3'' ''n2'' ''n4'']
   \<and> \<not> prefix ''proxy'' ''my-proxy-1''
   \<and> map_sum id finalOutbound
        (runSimulation (constEnv 0) exampleInput selectorNodes balancerEdges)
       = Inr (Some ''my-proxy-1'')
   \<and> map_sum id highlightEdgeIds
        (runSimulation (constEnv 0) exampleInput selectorNodes balancerEdges)
       = Inr [''e1'', ''e2'']"
  by (simp add: candidates_def sim_defs mk_defs selectorNodes_def selectorBalancer_def
        balancerEdges_def sublist_code)

subsection \<open>Determinism\<close>















section \<open>Properties of the validation engine\<close>

subsection \<open>The recursive searches return\<close>

text \<open>
  Each recursive call of \<^verbatim>\<open>canReachOutbound\<close> below the first adds a source of some
  edge to \<open>visited\<close>, and each recursive call of \<^verbatim>\<open>dfs\<close> adds a node identifier, so a
  depth above the number of edges, respectively nodes, is never exhausted.
\<close>

lemma canReach_total:
  "card (source ` set edges - vis) < depth \<Longrightarrow>
     \<exists>b vis'. canReachOutbound depth nodeId edges out vis = Some (b, vis') \<and> vis \<subseteq> vis'"
  "outgoing = [] \<or> card (source ` set edges - vis) < depth \<Longrightarrow>
     \<exists>b vis'. canReachSome depth outgoing edges out vis = Some (b, vis') \<and> vis \<subseteq> vis'"
proof (induction depth nodeId edges out vis and depth outgoing edges out vis
       rule: canReachOutbound_canReachSome.induct)
  case (1 nodeId edges outboundIds visited)
  then show ?case by simp
next
  case (2 depth nodeId edges outboundIds visited)
  let ?U = "source ` set edges"
  show ?case
  proof (cases "nodeId \<in> outboundIds \<or> nodeId \<in> visited")
    case True
    then show ?thesis by auto
  next
    case False
    let ?out = "filter (\<lambda>e. source e = nodeId) edges"
    have "?out = [] \<or> card (?U - insert nodeId visited) < depth"
    proof (cases "?out = []")
      case False
      then obtain e where "e \<in> set edges" "source e = nodeId"
        by (auto simp: filter_empty_conv)
      then have "nodeId \<in> ?U - visited" using \<open>\<not> (nodeId \<in> outboundIds \<or> nodeId \<in> visited)\<close> by auto
      then have "card (?U - insert nodeId visited) < card (?U - visited)"
        by (intro psubset_card_mono) auto
      with "2.prems" show ?thesis by simp
    qed simp
    moreover from False have "nodeId \<notin> outboundIds" "nodeId \<notin> visited" by auto
    ultimately
    obtain b vis' where "canReachSome depth ?out edges outboundIds (insert nodeId visited) = Some (b, vis')"
      "insert nodeId visited \<subseteq> vis'" using "2.IH" by blast
    with False show ?thesis by auto
  qed
next
  case (3 depth edges outboundIds visited)
  then show ?case by auto
next
  case (4 depth e outgoing edges outboundIds visited)
  let ?U = "source ` set edges"
  from "4.prems" have c: "card (?U - visited) < depth" by simp
  from "4.IH"(1)[OF c] obtain b vis' where
    r: "canReachOutbound depth (target e) edges outboundIds visited = Some (b, vis')" and s: "visited \<subseteq> vis'"
    by auto
  show ?case
  proof (cases b)
    case True
    with r s show ?thesis by auto
  next
    case False
    have "card (?U - vis') \<le> card (?U - visited)" using s by (intro card_mono) auto
    with c have "outgoing = [] \<or> card (?U - vis') < depth" by simp
    with r False
    obtain b' vis'' where "canReachSome depth outgoing edges outboundIds vis' = Some (b', vis'')" "vis' \<subseteq> vis''"
      using "4.IH"(2) by blast
    with r s False show ?thesis by auto
  qed
qed

lemma dfs_total:
  "\<forall>x. x \<notin> U \<longrightarrow> adj x = [] \<Longrightarrow> finite U \<Longrightarrow> card (U - dfs_visited s) < depth \<Longrightarrow>
     \<exists>b s'. dfs depth adj nodeId s = Some (b, s') \<and> dfs_visited s \<subseteq> dfs_visited s'"
  "\<forall>x. x \<notin> U \<longrightarrow> adj x = [] \<Longrightarrow> finite U \<Longrightarrow> ns = [] \<or> card (U - dfs_visited s) < depth \<Longrightarrow>
     \<exists>b s'. dfsNeighbors depth adj nodeId ns s = Some (b, s') \<and> dfs_visited s \<subseteq> dfs_visited s'"
proof (induction depth adj nodeId s and depth adj nodeId ns s rule: dfs_dfsNeighbors.induct)
  case (1 adj nodeId s)
  then show ?case by simp
next
  case (2 depth adj nodeId s)
  note adj = "2.prems"(1) and fin = "2.prems"(2)
  show ?case
  proof (cases "nodeId \<in> inStack s \<or> nodeId \<in> dfs_visited s")
    case True
    then show ?thesis by auto
  next
    case False
    let ?s1 = "s\<lparr>dfs_visited := insert nodeId (dfs_visited s), inStack := insert nodeId (inStack s)\<rparr>"
    have "adj nodeId = [] \<or> card (U - dfs_visited ?s1) < depth"
    proof (cases "nodeId \<in> U")
      case True
      then have "nodeId \<in> U - dfs_visited s" using False by auto
      then have "card (U - insert nodeId (dfs_visited s)) < card (U - dfs_visited s)"
        using fin by (intro psubset_card_mono) auto
      with "2.prems" show ?thesis by simp
    next
      case False
      then show ?thesis using adj by simp
    qed
    moreover from False have "nodeId \<notin> inStack s" "nodeId \<notin> dfs_visited s" by auto
    ultimately
    obtain b s' where "dfsNeighbors depth adj nodeId (adj nodeId) ?s1 = Some (b, s')"
      "dfs_visited ?s1 \<subseteq> dfs_visited s'" using "2.IH" adj fin by blast
    with False show ?thesis by auto
  qed
next
  case (3 depth adj nodeId s)
  then show ?case by auto
next
  case (4 depth adj nodeId neighbor rest s)
  note adj = "4.prems"(1) and fin = "4.prems"(2)
  from "4.prems" have c: "card (U - dfs_visited s) < depth" by simp
  from "4.IH"(1)[OF adj fin c] obtain b s' where
    r: "dfs depth adj neighbor s = Some (b, s')" and m: "dfs_visited s \<subseteq> dfs_visited s'"
    by auto
  show ?case
  proof (cases b)
    case True
    with r m show ?thesis by auto
  next
    case False
    have "card (U - dfs_visited s') \<le> card (U - dfs_visited s)"
      using m fin by (intro card_mono) auto
    with c have "rest = [] \<or> card (U - dfs_visited s') < depth" by simp
    with r False
    obtain b' s'' where "dfsNeighbors depth adj nodeId rest s' = Some (b', s'')"
      "dfs_visited s' \<subseteq> dfs_visited s''"
      using "4.IH"(2) adj fin by blast
    with r m False show ?thesis by auto
  qed
qed

lemma dfsAll_total:
  "\<forall>x. x \<notin> U \<longrightarrow> adj x = [] \<Longrightarrow> finite U \<Longrightarrow> card (U - dfs_visited s) < depth \<Longrightarrow>
     \<exists>s'. dfsAll depth adj ns s = Some s'"
proof (induction ns arbitrary: s)
  case Nil
  then show ?case by simp
next
  case (Cons n ns)
  show ?case
  proof (cases "node_id n \<in> dfs_visited s")
    case True
    with Cons show ?thesis by simp
  next
    case False
    from dfs_total(1)[OF Cons.prems, of "node_id n"] obtain b s' where
      r: "dfs depth adj (node_id n) s = Some (b, s')" and m: "dfs_visited s \<subseteq> dfs_visited s'"
      by auto
    have "card (U - dfs_visited s') \<le> card (U - dfs_visited s)"
      using m Cons.prems(2) by (intro card_mono) auto
    with Cons.prems(3) have "card (U - dfs_visited s') < depth" by simp
    from Cons.IH[OF Cons.prems(1,2) this] r False show ?thesis by simp
  qed
qed

lemma detectCycles_total:
  assumes "length nodes < depth"
  shows "\<exists>issues. detectCycles depth nodes edges = Some issues"
proof -
  let ?U = "node_id ` set nodes"
  have "card ?U \<le> length nodes"
    by (metis card_image_le card_length le_trans List.finite_set)
  with assms have c: "card (?U - dfs_visited \<lparr>dfs_visited = {}, inStack = {}, dfs_issues = []\<rparr>) < depth"
    by simp
  have a: "\<forall>x. x \<notin> ?U \<longrightarrow> adjacency nodes edges x = []" by (simp add: adjacency_def)
  from dfsAll_total[OF a _ c, of nodes] show ?thesis by (auto simp: detectCycles_def)
qed

lemma reachabilityIssues_total:
  assumes "length edges < depth"
  shows "\<exists>issues. reachabilityIssues depth edges terminalIds inbounds = Some issues"
proof (induction inbounds)
  case Nil
  then show ?case by simp
next
  case (Cons n ns)
  have "card (source ` set edges) \<le> length edges"
    by (metis card_image_le card_length le_trans List.finite_set)
  with assms have "card (source ` set edges - {}) < depth" by simp
  from canReach_total(1)[OF this, of "node_id n" terminalIds] Cons show ?case by auto
qed

lemma validateStructure_total:
  assumes "length nodes < depth" "length edges < depth"
  shows "\<exists>issues. validateStructure depth nodes edges = Some issues"
  using detectCycles_total[OF assms(1), of edges] reachabilityIssues_total[OF assms(2)]
  unfolding validateStructure_def Let_def
  by (metis (no_types, lifting) option.simps(5))

lemma validateGraph_total:
  assumes "length nodes < depth" "length edges < depth"
  shows "\<exists>r. validateGraph depth nodes edges = Some r"
  using validateStructure_total[OF assms]
  by (auto simp: validateGraph_def Let_def)



subsection \<open>Duplicate tags\<close>










subsection \<open>Cycle detection\<close>

lemmas issue_defs = isCycleIssue_def mkError_def mkWarning_def

lemma validateUser_notCycle: "i \<in> set (validateUser nodeId p iu) \<Longrightarrow> \<not> isCycleIssue i"
  by (cases iu) (auto simp: validateUser_def issue_defs split: if_splits)

lemma validateSimpleRule_notCycle: "i \<in> set (validateSimpleRule nodeId ir) \<Longrightarrow> \<not> isCycleIssue i"
  by (cases ir) (auto simp: validateSimpleRule_def issue_defs split: if_splits)

lemma validateInbound_notCycle: "i \<in> set (validateInbound nodeId d) \<Longrightarrow> \<not> isCycleIssue i"
  by (auto simp: validateInbound_def issue_defs split: if_splits dest: validateUser_notCycle)

lemma validateRouting_notCycle: "i \<in> set (validateRouting nodeId d) \<Longrightarrow> \<not> isCycleIssue i"
  by (auto simp: validateRouting_def Let_def issue_defs split: if_splits)

lemma validateBalancer_notCycle: "i \<in> set (validateBalancer nodeId d) \<Longrightarrow> \<not> isCycleIssue i"
  by (auto simp: validateBalancer_def issue_defs split: if_splits)

lemma validateOutbound_notCycle: "i \<in> set (validateOutbound nodeId d nt) \<Longrightarrow> \<not> isCycleIssue i"
  by (auto simp: validateOutbound_def issue_defs split: if_splits)

lemma validateSimpleServer_notCycle: "i \<in> set (validateSimpleServer nodeId d) \<Longrightarrow> \<not> isCycleIssue i"
  by (auto simp: validateSimpleServer_def issue_defs split: if_splits)

lemma validateSimpleRules_notCycle: "i \<in> set (validateSimpleRules nodeId d) \<Longrightarrow> \<not> isCycleIssue i"
  by (auto simp: validateSimpleRules_def issue_defs split: if_splits dest: validateSimpleRule_notCycle)

lemma validateNode_notCycle: "i \<in> set (validateNode n) \<Longrightarrow> \<not> isCycleIssue i"
  unfolding validateNode_def
  by (cases "node_data n")
     (auto dest: validateInbound_notCycle validateRouting_notCycle validateBalancer_notCycle
        validateOutbound_notCycle validateSimpleServer_notCycle validateSimpleRules_notCycle)

lemma validateTransport_notCycle: "i \<in> set (validateTransport nodeId t) \<Longrightarrow> \<not> isCycleIssue i"
  by (auto simp: validateTransport_def issue_defs split: if_splits)

lemma validateEdgeTransport_notCycle: "i \<in> set (validateEdgeTransport nodes e) \<Longrightarrow> \<not> isCycleIssue i"
  by (auto simp: validateEdgeTransport_def split: if_splits option.splits dest: validateTransport_notCycle)

lemma duplicateTagIssues_notCycle: "i \<in> set (duplicateTagIssues nodes) \<Longrightarrow> \<not> isCycleIssue i"
  by (auto simp: duplicateTagIssues_def issue_defs split: if_splits)

lemma portConflictIssues_notCycle: "i \<in> set (portConflictIssues nodes) \<Longrightarrow> \<not> isCycleIssue i"
  by (auto simp: portConflictIssues_def issue_defs split: if_splits)

lemma issuesWhere_warning_notCycle:
  "i \<in> set (issuesWhere bad (\<lambda>x. mkWarning x m) ns) \<Longrightarrow> \<not> isCycleIssue i"
  by (auto simp: issuesWhere_def issue_defs)

lemma deviceIssues_notCycle: "i \<in> set (deviceIssues nodes edges dev) \<Longrightarrow> \<not> isCycleIssue i"
  by (auto simp: deviceIssues_def deviceEdgeIssues_def Let_def issue_defs
        split: XrayNodeData.splits option.splits if_splits)

lemma reachabilityIssues_notCycle:
  "reachabilityIssues depth edges ts ns = Some is \<Longrightarrow> i \<in> set is \<Longrightarrow> \<not> isCycleIssue i"
  by (induction ns arbitrary: "is")
     (auto simp: unreachableIssue_def issue_defs split: option.splits if_splits)

lemma validateConfig_notCycle: "i \<in> set (validateConfig nodes edges) \<Longrightarrow> \<not> isCycleIssue i"
  by (auto simp: validateConfig_def validateConfigNode_def validateSelectors_def issue_defs
        split: XrayNodeData.splits if_splits)

lemma filter_none: "(\<And>i. i \<in> set xs \<Longrightarrow> \<not> P i) \<Longrightarrow> filter P xs = []"
  by (simp add: filter_empty_conv)

lemma filter_concat_none: "(\<And>x i. i \<in> set (f x) \<Longrightarrow> \<not> P i) \<Longrightarrow> filter P (concat (map f xs)) = []"
  by (induction xs) (simp_all add: filter_none)

lemma structure_cycles:
  assumes "validateStructure depth nodes edges = Some structural"
    and "detectCycles depth nodes edges = Some cycles"
  shows "filter isCycleIssue structural = filter isCycleIssue cycles"
proof -
  from assms obtain reach where
    reach: "reachabilityIssues depth edges (node_id ` set (nodesOfType OutboundTerminal nodes))
              (nodesOfType Inbound nodes) = Some reach"
    by (auto simp: validateStructure_def Let_def split: option.splits)
  note r = filter_none[of reach isCycleIssue, OF reachabilityIssues_notCycle[OF reach]]
  show ?thesis
    using assms reach
    by (auto simp: validateStructure_def Let_def r
          filter_none[OF duplicateTagIssues_notCycle] filter_none[OF portConflictIssues_notCycle]
          filter_none[OF issuesWhere_warning_notCycle]
          filter_concat_none[of "deviceIssues nodes edges", OF deviceIssues_notCycle])
qed

lemma cycle_errors:
  assumes "validateGraph depth nodes edges = Some r"
    and "detectCycles depth nodes edges = Some cycles"
  shows "filter isCycleIssue (errors r) = filter isCycleIssue cycles"
proof -
  from assms(1) obtain structural where
    st: "validateStructure depth nodes edges = Some structural"
    and er: "errors r = filter (\<lambda>i. issue_level i = LevelError)
               (concat (map validateNode nodes) @ concat (map (validateEdgeTransport nodes) edges)
                @ structural @ validateConfig nodes edges)"
    by (auto simp: validateGraph_def Let_def split: option.splits)
  have e: "isCycleIssue i \<Longrightarrow> issue_level i = LevelError" for i by (simp add: isCycleIssue_def)
  have f: "filter isCycleIssue (filter (\<lambda>i. issue_level i = LevelError) xs) = filter isCycleIssue xs" for xs
    by (induction xs) (auto simp: e)
  show ?thesis
    unfolding er f
    by (simp add: structure_cycles[OF st assms(2)]
          filter_none[OF validateConfig_notCycle]
          filter_concat_none[of validateNode, OF validateNode_notCycle]
          filter_concat_none[of "validateEdgeTransport nodes", OF validateEdgeTransport_notCycle])
qed

lemma routingRing_cycles:
  assumes "isRoutingRing n1 n2 n3 e1 e2 e3"
  shows "detectCycles (Suc (Suc (Suc (Suc k)))) [n1, n2, n3] [e1, e2, e3]
           = Some [cycleIssue (node_id n3), cycleIssue (node_id n2), cycleIssue (node_id n1)]"
proof -
  from assms have d: "node_id n1 \<noteq> node_id n2" "node_id n1 \<noteq> node_id n3" "node_id n2 \<noteq> node_id n3"
     "node_id n2 \<noteq> node_id n1" "node_id n3 \<noteq> node_id n1" "node_id n3 \<noteq> node_id n2"
    by (auto simp: isRoutingRing_def)
  from assms have f: "nodeType (node_data n1) = Routing" "nodeType (node_data n2) = Routing"
      "nodeType (node_data n3) = Routing"
      "source e1 = node_id n1" "target e1 = node_id n2"
      "source e2 = node_id n2" "target e2 = node_id n3"
      "source e3 = node_id n3" "target e3 = node_id n1"
    by (auto simp: isRoutingRing_def)
  have a1: "adjacency [n1, n2, n3] [e1, e2, e3] (node_id n1) = [node_id n2]"
    and a2: "adjacency [n1, n2, n3] [e1, e2, e3] (node_id n2) = [node_id n3]"
    and a3: "adjacency [n1, n2, n3] [e1, e2, e3] (node_id n3) = [node_id n1]"
    using d f by (simp_all add: adjacency_def nodeTypes_def)
  show ?thesis
    using d by (simp add: detectCycles_def a1 a2 a3)
qed

lemma proxyRing_cycles:
  assumes "isProxyRing pA iB pB iA e1 e2 e3 e4"
  shows "detectCycles (Suc (Suc (Suc k))) [pA, iB, pB, iA] [e1, e2, e3, e4] = Some []"
proof -
  from assms have d: "node_id pA \<noteq> node_id iB" "node_id pA \<noteq> node_id pB" "node_id pA \<noteq> node_id iA"
     "node_id iB \<noteq> node_id pB" "node_id iB \<noteq> node_id iA" "node_id pB \<noteq> node_id iA"
     "node_id iB \<noteq> node_id pA" "node_id pB \<noteq> node_id pA" "node_id iA \<noteq> node_id pA"
     "node_id pB \<noteq> node_id iB" "node_id iA \<noteq> node_id iB" "node_id iA \<noteq> node_id pB"
    by (auto simp: isProxyRing_def)
  from assms have f:
      "nodeType (node_data pA) = OutboundProxy" "nodeType (node_data iB) = Inbound"
      "nodeType (node_data pB) = OutboundProxy" "nodeType (node_data iA) = Inbound"
      "source e1 = node_id pA" "target e1 = node_id iB"
      "source e2 = node_id iB" "target e2 = node_id pB"
      "source e3 = node_id pB" "target e3 = node_id iA"
      "source e4 = node_id iA" "target e4 = node_id pA"
    by (auto simp: isProxyRing_def)
  let ?adj = "adjacency [pA, iB, pB, iA] [e1, e2, e3, e4]"
  have a: "?adj (node_id pA) = []" "?adj (node_id iB) = [node_id pB]"
      "?adj (node_id pB) = []" "?adj (node_id iA) = [node_id pA]"
    using d f by (simp_all add: adjacency_def nodeTypes_def)
  show ?thesis
    using d by (simp add: detectCycles_def a)
qed

text \<open>
  C5. \<^verbatim>\<open>validateGraph\<close> reports a cycle error for every ring of three routing nodes,
  and reports no cycle error for the ring outbound-proxy(A) \<open>\<rightarrow>\<close> inbound(B) \<open>\<rightarrow>\<close>
  outbound-proxy(B) \<open>\<rightarrow>\<close> inbound(A) \<open>\<rightarrow>\<close> outbound-proxy(A): the edges from a proxy
  outbound to an inbound are left out of the traversal, and no other check issues
  an error with the cycle message.
\<close>

theorem validateGraph_cycles:
  assumes "isRoutingRing n1 n2 n3 e1 e2 e3" "isProxyRing pA iB pB iA f1 f2 f3 f4"
    and "3 < depth" "4 < depth'"
  shows "(\<exists>r. validateGraph depth [n1, n2, n3] [e1, e2, e3] = Some r
              \<and> list_ex isCycleIssue (errors r))
       \<and> (\<exists>r. validateGraph depth' [pA, iB, pB, iA] [f1, f2, f3, f4] = Some r
              \<and> \<not> list_ex isCycleIssue (errors r))"
proof
  from assms(3) obtain j where "depth = Suc (3 + j)" using less_imp_Suc_add by blast
  then have k: "depth = Suc (Suc (Suc (Suc j)))" by (simp add: numeral_3_eq_3)
  from validateGraph_total[of "[n1, n2, n3]" depth "[e1, e2, e3]"] assms(3)
  obtain r where r: "validateGraph depth [n1, n2, n3] [e1, e2, e3] = Some r" by auto
  from cycle_errors[OF r routingRing_cycles[OF assms(1), of j, folded k]]
  have "filter isCycleIssue (errors r) \<noteq> []"
    by (simp add: isCycleIssue_def cycleIssue_def mkError_def)
  then have "list_ex isCycleIssue (errors r)" by (simp add: filter_empty_conv list_ex_iff)
  with r show "\<exists>r. validateGraph depth [n1, n2, n3] [e1, e2, e3] = Some r
                  \<and> list_ex isCycleIssue (errors r)"
    by blast
next
  from assms(4) obtain j where "depth' = Suc (4 + j)" using less_imp_Suc_add by blast
  then have k: "depth' = Suc (Suc (Suc (Suc (Suc j))))" by (simp add: eval_nat_numeral)
  from validateGraph_total[of "[pA, iB, pB, iA]" depth' "[f1, f2, f3, f4]"] assms(4)
  obtain r where r: "validateGraph depth' [pA, iB, pB, iA] [f1, f2, f3, f4] = Some r" by auto
  from cycle_errors[OF r proxyRing_cycles[OF assms(2), of "Suc (Suc j)", folded k]]
  have "filter isCycleIssue (errors r) = []" by simp
  then have "\<not> list_ex isCycleIssue (errors r)" by (simp add: filter_empty_conv list_ex_iff)
  with r show "\<exists>r. validateGraph depth' [pA, iB, pB, iA] [f1, f2, f3, f4] = Some r
                  \<and> \<not> list_ex isCycleIssue (errors r)"
    by blast
qed

theorem validateGraph_cycles_witness:
  "isRoutingRing (routingRing ! 0) (routingRing ! 1) (routingRing ! 2)
     (ringEdges ! 0) (ringEdges ! 1) (ringEdges ! 2)
   \<and> isProxyRing (proxyRing ! 0) (proxyRing ! 1) (proxyRing ! 2) (proxyRing ! 3)
       (proxyRingEdges ! 0) (proxyRingEdges ! 1) (proxyRingEdges ! 2) (proxyRingEdges ! 3)
   \<and> (3::nat) < 4 \<and> (4::nat) < 5
   \<and> (\<exists>r. validateGraph 4 routingRing ringEdges = Some r \<and> list_ex isCycleIssue (errors r))
   \<and> (\<exists>r. validateGraph 5 proxyRing proxyRingEdges = Some r \<and> \<not> list_ex isCycleIssue (errors r))"
proof -
  have h1: "isRoutingRing (routingRing ! 0) (routingRing ! 1) (routingRing ! 2)
              (ringEdges ! 0) (ringEdges ! 1) (ringEdges ! 2)"
    by (simp add: isRoutingRing_def routingRing_def ringEdges_def mk_defs)
  have h2: "isProxyRing (proxyRing ! 0) (proxyRing ! 1) (proxyRing ! 2) (proxyRing ! 3)
              (proxyRingEdges ! 0) (proxyRingEdges ! 1) (proxyRingEdges ! 2) (proxyRingEdges ! 3)"
    by (simp add: isProxyRing_def proxyRing_def proxyRingEdges_def mk_defs)
  have h3: "(3::nat) < 4" and h4: "(4::nat) < 5" by simp_all
  have n1: "[routingRing ! 0, routingRing ! 1, routingRing ! 2] = routingRing"
    and e1: "[ringEdges ! 0, ringEdges ! 1, ringEdges ! 2] = ringEdges"
    and n2: "[proxyRing ! 0, proxyRing ! 1, proxyRing ! 2, proxyRing ! 3] = proxyRing"
    and e2: "[proxyRingEdges ! 0, proxyRingEdges ! 1, proxyRingEdges ! 2, proxyRingEdges ! 3]
               = proxyRingEdges"
    by (simp_all add: routingRing_def ringEdges_def proxyRing_def proxyRingEdges_def)
  from validateGraph_cycles [OF h1 h2 h3 h4] h1 h2 show ?thesis
    unfolding n1 e1 n2 e2 by simp
qed

end
